theory Spec2Isabelle
  imports Complex_Main "HOL-Library.Sublist" "HOL-Library.Char_ord" "HOL-Library.Multiset"
begin

section \<open>Tool router (rag.py, \<open>RAGSystem._route_to_tool\<close>)\<close>

text \<open>
  Question texts are modelled as \<open>string\<close>, one \<open>char\<close> per code point below 256.
  On that range Python's \<open>str.lower\<close> changes an ASCII letter only into an ASCII
  letter and never produces an ASCII character from a non-ASCII one, so for the
  all-ASCII keywords of the router the lower-casing of \<open>A\<close>..\<open>Z\<close> decides every
  containment test.
\<close>

datatype tool = direct_llm | web_search | rag

definition lower_char :: "char \<Rightarrow> char" where
  "lower_char c =
     (if CHR ''A'' \<le> c \<and> c \<le> CHR ''Z'' then char_of (of_char c + (32::nat)) else c)"

definition lower :: "string \<Rightarrow> string" where
  "lower s = map lower_char s"

text \<open>Python's \<open>kw in text\<close> on strings: \<open>kw\<close> occurs as a contiguous block.\<close>

definition str_in :: "string \<Rightarrow> string \<Rightarrow> bool" where
  "str_in kw text = sublist kw text"

definition greeting_keywords :: "string list" where
  "greeting_keywords =
     [''hello'', ''hi'', ''hey'', ''thank'', ''thanks'', ''good morning'', ''good evening'']"

definition web_search_keywords :: "string list" where
  "web_search_keywords =
     [''weather'', ''temperature'', ''forecast'', ''news'', ''today'', ''current'',
      ''latest'', ''recent'', ''price'', ''stock'', ''market'', ''who is the current'',
      ''who won'', ''when did'', ''what happened'']"

definition rag_keywords :: "string list" where
  "rag_keywords =
     [''document'', ''pdf'', ''according to'', ''in the'', ''from the'', ''docling'', ''paper'']"

definition route_to_tool :: "string \<Rightarrow> tool" where
  "route_to_tool question =
     (let question_lower = lower question in
      if list_ex (\<lambda>kw. str_in kw question_lower) greeting_keywords then direct_llm
      else if list_ex (\<lambda>kw. str_in kw question_lower) web_search_keywords then web_search
      else if list_ex (\<lambda>kw. str_in kw question_lower) rag_keywords then rag
      else rag)"

section \<open>Vector store (vector_store.py)\<close>

subsection \<open>Stored rows, JSONB metadata and query results\<close>

text \<open>
  Metadata is stored as JSONB. An object is an association list whose keys are
  distinct, as in the Python dict it was dumped from; numbers are exact rationals.
\<close>

datatype json =
    JNull
  | JBool bool
  | JNum rat
  | JStr string
  | JArr "json list"
  | JObj "(string \<times> json) list"

text \<open>
  PostgreSQL's \<open>a @> b\<close> below the top level: objects and arrays must match in kind,
  every member of the right object is contained in the member of the left object under
  the same key, every element of the right array is contained in some element of the
  left array, and scalars are contained when equal. (The filter of a search is always an
  object, so the top-level exception for an array containing a bare scalar never applies.)
\<close>

function (sequential) jsonb_contains :: "json \<Rightarrow> json \<Rightarrow> bool" where
  "jsonb_contains (JObj a) (JObj b) =
     list_all (\<lambda>kv. case map_of a (fst kv) of
                        None \<Rightarrow> False
                      | Some w \<Rightarrow> jsonb_contains w (snd kv)) b"
| "jsonb_contains (JObj a) y = False"
| "jsonb_contains (JArr a) (JArr b) =
     list_all (\<lambda>v. list_ex (\<lambda>w. jsonb_contains w v) a) b"
| "jsonb_contains (JArr a) y = False"
| "jsonb_contains x y = (x = y)"
  by pat_completeness auto

lemma size_member_obj:
  "(kv :: string \<times> json) \<in> set b \<Longrightarrow>
     size (snd kv) < Suc (size_list (size_prod (\<lambda>_. 0) size) b)"
  by (induction b) auto

lemma size_member_arr: "(v :: json) \<in> set b \<Longrightarrow> size v < Suc (size_list size b)"
  by (induction b) auto

termination jsonb_contains
  by (relation "measure (\<lambda>(x, y). size y)") (auto simp: size_member_obj size_member_arr)

text \<open>
  A row of the table \<open>documents\<close> (columns \<open>id\<close>, \<open>content\<close>, \<open>metadata\<close>,
  \<open>embedding\<close>; \<open>created_at\<close> is never read). The embedding type \<open>'e\<close> stands for
  \<open>vector(n)\<close>; a \<open>char\<close> of \<open>content\<close> stands for one code point, which is
  what Python's \<open>len\<close> counts.
\<close>

record 'e doc_row =
  row_id :: string
  row_content :: string
  row_metadata :: "(string \<times> json) list"
  row_embedding :: 'e

text \<open>A row returned by the \<open>SELECT\<close> of both searches (a \<open>dict_row\<close>).\<close>

record hit =
  hit_id :: string
  hit_content :: string
  hit_metadata :: "(string \<times> json) list"
  hit_similarity :: real

text \<open>
  The chunk dictionary handed to the caller. \<open>similarity_search\<close> returns \<open>dict(row)\<close>,
  which keeps the key \<open>similarity\<close>; \<open>mmr_search\<close> builds a dictionary without it.
\<close>

record chunk =
  chunk_id :: string
  chunk_content :: string
  chunk_metadata :: "(string \<times> json) list"
  chunk_similarity :: "real option"

datatype error =
    DatabaseError    \<comment> \<open>PostgreSQL rejects a negative \<open>LIMIT\<close>\<close>
  | ValueError       \<comment> \<open>\<open>max\<close> of an empty sequence\<close>
  | AttributeError   \<comment> \<open>a method called on \<open>None\<close>\<close>
  | IndexError       \<comment> \<open>\<open>xs[0]\<close> on an empty list\<close>

subsection \<open>The store, the floating-point arithmetic and the shared \<open>SELECT\<close>\<close>

text \<open>
  The database behind a \<open>VectorStore\<close>: the rows of the table in storage order, the
  operator \<open><=>\<close> of pgvector (cosine distance, a double), and the rows the scan chosen
  for a query vector reaches. With the \<open>ivfflat\<close> index that \<open>initialize\<close> creates, a scan
  visits only the lists it probes, so it may miss rows; a sequential scan reaches all of
  them. Rows at equal distance are returned in storage order.
\<close>

record 'e vector_store =
  store_rows :: "'e doc_row list"
  store_distance :: "'e \<Rightarrow> 'e \<Rightarrow> real"
  store_reaches :: "'e \<Rightarrow> 'e doc_row \<Rightarrow> bool"

text \<open>
  Scores are doubles. Every arithmetic operation on them, in SQL and in Python, returns
  the rounding \<open>fl\<close> of the exact result; \<open>fl\<close> is a parameter, of which only the
  following is ever assumed: it is monotone, it leaves a rounded value unchanged, and it
  leaves \<open>0\<close> unchanged. (Not-a-number values are not modelled.)
\<close>

definition float_rounding :: "(real \<Rightarrow> real) \<Rightarrow> bool" where
  "float_rounding fl =
     ((\<forall>x y. x \<le> y \<longrightarrow> fl x \<le> fl y) \<and> (\<forall>x. fl (fl x) = fl x) \<and> fl 0 = 0)"

text \<open>
  The statement both searches build is
  \<open>SELECT id, content, metadata, 1 - (embedding <=> %s::vector) AS similarity FROM t
   [WHERE metadata @> %s] ORDER BY embedding <=> %s::vector LIMIT %s\<close>.
  \<open>execute\<close> binds its arguments to the placeholders by position. Without a \<open>WHERE\<close>
  clause the placeholders stand for a vector, a vector and the limit; with it they stand
  for a vector, the JSON filter, a vector and the limit. Any other binding is rejected by
  the server (a JSON text is no vector literal, and there is no operator between \<open>jsonb\<close>
  and \<open>vector\<close>).
\<close>

datatype 'e sql_value =
    JsonText "(string \<times> json) list"   \<comment> \<open>\<open>json.dumps(filter_metadata)\<close>\<close>
  | VectorValue 'e                       \<comment> \<open>\<open>Vector(query_embedding)\<close>\<close>
  | IntValue int

datatype 'e bound_select =
  BoundSelect (bound_where: "(string \<times> json) list option")
    (bound_similarity_vector: 'e) (bound_order_vector: 'e) (bound_limit: int)

definition bind_select :: "bool \<Rightarrow> 'e sql_value list \<Rightarrow> error + 'e bound_select" where
  "bind_select where_present params =
     (case params of
        [VectorValue v1, VectorValue v2, IntValue n] \<Rightarrow>
          (if where_present then Inl DatabaseError else Inr (BoundSelect None v1 v2 n))
      | [VectorValue v1, JsonText f, VectorValue v2, IntValue n] \<Rightarrow>
          (if where_present then Inr (BoundSelect (Some f) v1 v2 n) else Inl DatabaseError)
      | _ \<Rightarrow> Inl DatabaseError)"

definition row_to_hit :: "(real \<Rightarrow> real) \<Rightarrow> 'e vector_store \<Rightarrow> 'e \<Rightarrow> 'e doc_row \<Rightarrow> hit" where
  "row_to_hit fl store q r =
     \<lparr>hit_id = row_id r, hit_content = row_content r, hit_metadata = row_metadata r,
      hit_similarity = fl (1 - store_distance store (row_embedding r) q)\<rparr>"

definition where_matches :: "(string \<times> json) list option \<Rightarrow> 'e doc_row \<Rightarrow> bool" where
  "where_matches where_clause r =
     (case where_clause of
        None \<Rightarrow> True
      | Some f \<Rightarrow> jsonb_contains (JObj (row_metadata r)) (JObj f))"

definition sql_select ::
  "(real \<Rightarrow> real) \<Rightarrow> 'e vector_store \<Rightarrow> bool \<Rightarrow> 'e sql_value list \<Rightarrow> error + hit list" where
  "sql_select fl store where_present params =
     (case bind_select where_present params of
        Inl e \<Rightarrow> Inl e
      | Inr b \<Rightarrow>
          (if bound_limit b < 0 then Inl DatabaseError
           else Inr (map (row_to_hit fl store (bound_similarity_vector b))
                       (take (nat (bound_limit b))
                          (sort_key (\<lambda>r. store_distance store (row_embedding r)
                                           (bound_order_vector b))
                             (filter (\<lambda>r. store_reaches store (bound_order_vector b) r
                                          \<and> where_matches (bound_where b) r)
                                (store_rows store)))))))"

text \<open>
  \<open>if filter_metadata:\<close> is false for \<open>None\<close> and for the empty dictionary. When it is
  true, both searches add the \<open>WHERE\<close> clause and call \<open>execute\<close> with the arguments
  \<open>(json.dumps(filter_metadata), Vector(q), Vector(q), limit)\<close>, the filter first
  (vector_store.py lines 145 to 154 and 206 to 215); otherwise with
  \<open>(Vector(q), Vector(q), limit)\<close>.
\<close>

definition truthy_filter :: "(string \<times> json) list option \<Rightarrow> (string \<times> json) list option" where
  "truthy_filter filter_metadata =
     (case filter_metadata of None \<Rightarrow> None | Some f \<Rightarrow> (if f = [] then None else Some f))"

definition execute_select ::
  "(real \<Rightarrow> real) \<Rightarrow> 'e vector_store \<Rightarrow> 'e \<Rightarrow> int \<Rightarrow> (string \<times> json) list option
     \<Rightarrow> error + hit list" where
  "execute_select fl store query_embedding limit filter_metadata =
     (case truthy_filter filter_metadata of
        Some f \<Rightarrow>
          sql_select fl store True
            [JsonText f, VectorValue query_embedding, VectorValue query_embedding, IntValue limit]
      | None \<Rightarrow>
          sql_select fl store False
            [VectorValue query_embedding, VectorValue query_embedding, IntValue limit])"

subsection \<open>\<open>VectorStore.similarity_search\<close>\<close>

definition hit_to_dict :: "hit \<Rightarrow> chunk" where
  "hit_to_dict row =
     \<lparr>chunk_id = hit_id row, chunk_content = hit_content row,
      chunk_metadata = hit_metadata row, chunk_similarity = Some (hit_similarity row)\<rparr>"

definition similarity_search ::
  "(real \<Rightarrow> real) \<Rightarrow> 'e vector_store \<Rightarrow> 'e \<Rightarrow> int \<Rightarrow> (string \<times> json) list option
     \<Rightarrow> error + (chunk \<times> real) list" where
  "similarity_search fl store query_embedding k filter_metadata =
     (case execute_select fl store query_embedding k filter_metadata of
        Inl e \<Rightarrow> Inl e
      | Inr results \<Rightarrow> Inr (map (\<lambda>row. (hit_to_dict row, hit_similarity row)) results))"

subsection \<open>\<open>VectorStore.mmr_search\<close>\<close>

text \<open>Python's \<open>xs[:k]\<close>: a negative \<open>k\<close> drops the last \<open>-k\<close> elements.\<close>

definition py_slice_to :: "int \<Rightarrow> 'a list \<Rightarrow> 'a list" where
  "py_slice_to k xs =
     (if 0 \<le> k then take (nat k) xs else take (nat (int (length xs) + k)) xs)"

text \<open>
  Python's \<open>max(xs, key=f)\<close>: the first element whose key no later element exceeds;
  \<open>ValueError\<close> on an empty sequence.
\<close>

definition py_max :: "('a \<Rightarrow> real) \<Rightarrow> 'a list \<Rightarrow> error + 'a" where
  "py_max key xs =
     (case xs of
        [] \<Rightarrow> Inl ValueError
      | x # rest \<Rightarrow> Inr (fold (\<lambda>y best. if key best < key y then y else best) rest x))"

text \<open>
  \<open>similarity = 1.0 / (1.0 + len_diff / 100)\<close>, and the inner loop over \<open>selected\<close>, whose
  running maximum starts at \<open>0\<close>.
\<close>

definition length_similarity :: "(real \<Rightarrow> real) \<Rightarrow> hit \<Rightarrow> hit \<Rightarrow> real" where
  "length_similarity fl candidate sel =
     (let len_diff = \<bar>int (length (hit_content candidate)) - int (length (hit_content sel))\<bar>
      in fl (1 / fl (1 + fl (real_of_int len_diff / 100))))"

definition max_sim_to_selected :: "(real \<Rightarrow> real) \<Rightarrow> hit list \<Rightarrow> hit \<Rightarrow> real" where
  "max_sim_to_selected fl selected candidate =
     fold (\<lambda>sel m. max m (length_similarity fl candidate sel)) selected 0"

text \<open>\<open>lambda_mult * relevance - (1 - lambda_mult) * max_sim_to_selected\<close>\<close>

definition mmr_score :: "(real \<Rightarrow> real) \<Rightarrow> real \<Rightarrow> hit list \<Rightarrow> hit \<Rightarrow> real" where
  "mmr_score fl lambda_mult selected candidate =
     fl (fl (lambda_mult * hit_similarity candidate)
         - fl (fl (1 - lambda_mult) * max_sim_to_selected fl selected candidate))"

lemma fold_keep_or_take_mem:
  "fold (\<lambda>y best. if key best < key y then y else best) rest x \<in> set (x # rest)"
  by (induction rest arbitrary: x) auto

lemma py_max_mem: "py_max key xs = Inr b \<Longrightarrow> b \<in> set xs"
  using fold_keep_or_take_mem [of key] by (auto simp: py_max_def split: list.splits)

function mmr_loop ::
  "(real \<Rightarrow> real) \<Rightarrow> int \<Rightarrow> real \<Rightarrow> hit list \<Rightarrow> hit list \<Rightarrow> error + hit list" where
  "mmr_loop fl k lambda_mult selected remaining =
     (if int (length selected) < k \<and> remaining \<noteq> [] then
        (let mmr_scores =
               map (\<lambda>candidate. (candidate, mmr_score fl lambda_mult selected candidate))
                 remaining
         in if mmr_scores \<noteq> [] then
              (case py_max snd mmr_scores of
                 Inl e \<Rightarrow> Inl e
               | Inr (best_candidate, best_score) \<Rightarrow>
                   mmr_loop fl k lambda_mult (selected @ [best_candidate])
                     (remove1 best_candidate remaining))
            else mmr_loop fl k lambda_mult selected remaining)
      else Inr selected)"
  by pat_completeness auto

termination mmr_loop
proof (relation "measure (\<lambda>(fl, k, lambda_mult, selected, remaining). length remaining)")
  show "wf (measure (\<lambda>(fl, k, lambda_mult, selected, remaining). length remaining))"
    by simp
next
  fix fl :: "real \<Rightarrow> real" and k :: int and lambda_mult :: real
    and selected remaining :: "hit list"
    and mmr_scores :: "(hit \<times> real) list" and best :: "hit \<times> real"
    and best_candidate :: hit and best_score :: real
  assume scores: "mmr_scores =
      map (\<lambda>candidate. (candidate, mmr_score fl lambda_mult selected candidate)) remaining"
    and best: "py_max snd mmr_scores = Inr best" "(best_candidate, best_score) = best"
  from best have "(best_candidate, best_score) \<in> set mmr_scores"
    by (simp add: py_max_mem)
  with scores have "best_candidate \<in> set remaining"
    by auto
  then have "length (remove1 best_candidate remaining) < length remaining"
    by (simp add: length_remove1) (cases remaining; simp)
  then show "((fl, k, lambda_mult, selected @ [best_candidate], remove1 best_candidate remaining),
              (fl, k, lambda_mult, selected, remaining))
             \<in> measure (\<lambda>(fl, k, lambda_mult, selected, remaining). length remaining)"
    by simp
next
  fix fl :: "real \<Rightarrow> real" and k :: int and lambda_mult :: real
    and selected remaining :: "hit list" and mmr_scores :: "(hit \<times> real) list"
  assume "mmr_scores =
      map (\<lambda>candidate. (candidate, mmr_score fl lambda_mult selected candidate)) remaining"
    and "int (length selected) < k \<and> remaining \<noteq> []" and "\<not> mmr_scores \<noteq> []"
  then show "((fl, k, lambda_mult, selected, remaining), (fl, k, lambda_mult, selected, remaining))
             \<in> measure (\<lambda>(fl, k, lambda_mult, selected, remaining). length remaining)"
    by simp
qed

declare mmr_loop.simps [simp del]

definition hit_to_chunk :: "hit \<Rightarrow> chunk" where
  "hit_to_chunk doc =
     \<lparr>chunk_id = hit_id doc, chunk_content = hit_content doc,
      chunk_metadata = hit_metadata doc, chunk_similarity = None\<rparr>"

definition mmr_search ::
  "(real \<Rightarrow> real) \<Rightarrow> 'e vector_store \<Rightarrow> 'e \<Rightarrow> int \<Rightarrow> real \<Rightarrow> int
     \<Rightarrow> (string \<times> json) list option \<Rightarrow> error + (chunk \<times> real) list" where
  "mmr_search fl store query_embedding k lambda_mult fetch_k filter_metadata =
     (case execute_select fl store query_embedding fetch_k filter_metadata of
        Inl e \<Rightarrow> Inl e
      | Inr candidates \<Rightarrow>
          (case candidates of
             [] \<Rightarrow> Inr []
           | first # rest \<Rightarrow>
               (case mmr_loop fl k lambda_mult [first] rest of
                  Inl e \<Rightarrow> Inl e
                | Inr selected \<Rightarrow>
                    Inr (map (\<lambda>doc. (hit_to_chunk doc, hit_similarity doc))
                           (py_slice_to k selected)))))"

section \<open>Reranker (reranker.py, \<open>Reranker.rerank\<close>)\<close>

text \<open>
  The cross-encoder's \<open>predict\<close> is a parameter: it maps the list of
  \<open>(query, content)\<close> pairs to a list of scores. \<open>zip(..., strict=False)\<close> stops at the
  shorter list; \<open>sort(key=..., reverse=True)\<close> is a stable sort by descending score, which
  is a stable ascending sort by the negated score.
\<close>

definition rerank ::
  "((string \<times> string) list \<Rightarrow> real list) \<Rightarrow> string \<Rightarrow> (chunk \<times> real) list \<Rightarrow> int
     \<Rightarrow> (chunk \<times> real) list" where
  "rerank predict query documents top_k =
     (if documents = [] then []
      else
        (let pairs = map (\<lambda>doc. (query, chunk_content (fst doc))) documents;
             scores = predict pairs;
             reranked = map (\<lambda>(doc, score). (fst doc, score)) (zip documents scores)
         in py_slice_to top_k (sort_key (\<lambda>x. - snd x) reranked)))"

section \<open>Orchestrator (rag.py, \<open>RAGSystem\<close>; conversation.py; web_search.py)\<close>

subsection \<open>Collaborators and state\<close>

text \<open>
  Tracing is off (\<open>LANGFUSE_ENABLED = False\<close>) and \<open>print\<close> is not modelled. The
  external services are parameters of the environment; what a query can change is the
  world: the Redis lists and their expiry, the number of clock readings, and the log of
  requests sent to the LLM.
\<close>

record message =
  msg_role :: string
  msg_content :: string

record source =
  src_content :: string
  src_filename :: "json option"
  src_section :: "json option"
  src_score :: real
  src_link :: "string option"

datatype message_metadata =
    NoMetadata                   \<comment> \<open>\<open>{}\<close>\<close>
  | SourcesUsed nat              \<comment> \<open>\<open>{"sources_used": n}\<close>\<close>
  | Sources "source list"        \<comment> \<open>\<open>{"sources": sources}\<close>\<close>
  | WebSearch                    \<comment> \<open>\<open>{"web_search": True}\<close>\<close>
  | WebSources "source list"     \<comment> \<open>\<open>{"sources": sources, "from_web": True}\<close>\<close>

record stored_message =
  st_role :: string
  st_content :: string
  st_timestamp :: string
  st_metadata :: message_metadata

record llm_request =
  req_model :: string
  req_messages :: "message list"
  req_temperature :: real

record llm_response =
  resp_content :: string
  resp_total_tokens :: nat

record web_result =
  web_title :: string
  web_snippet :: string
  web_link :: string

record world =
  redis_lists :: "string \<Rightarrow> stored_message list"
  redis_ttl :: "string \<Rightarrow> nat option"
  clock_reads :: nat
  llm_calls :: "llm_request list"

record 'e env =
  embed_text :: "string \<Rightarrow> 'e"
  vector_store :: "'e vector_store"
  float_round :: "real \<Rightarrow> real"
  has_conversation_manager :: bool
  reranker :: "((string \<times> string) list \<Rightarrow> real list) option"
  llm_model :: string
  chat_completions_create :: "llm_request \<Rightarrow> llm_response"
  web_search_tool :: "(string \<Rightarrow> nat \<Rightarrow> web_result list) option"
  utcnow_isoformat :: "nat \<Rightarrow> string"
  format_2f :: "real \<Rightarrow> string"
  py_str :: "json \<Rightarrow> string"

record query_result =
  answer :: string
  sources :: "source list"
  tool_used :: string
  retrieval_method :: "string option"
  reranked :: "bool option"
  num_tokens :: nat

subsection \<open>\<open>ConversationManager\<close>\<close>

definition conversation_key :: "string \<Rightarrow> string" where
  "conversation_key conversation_id = ''conversation:'' @ conversation_id"

definition add_message ::
  "'e env \<Rightarrow> world \<Rightarrow> string \<Rightarrow> string \<Rightarrow> string \<Rightarrow> message_metadata \<Rightarrow> world" where
  "add_message e w conversation_id role content metadata =
     (let key = conversation_key conversation_id;
          msg = \<lparr>st_role = role, st_content = content,
                 st_timestamp = utcnow_isoformat e (clock_reads w), st_metadata = metadata\<rparr>
      in w\<lparr>redis_lists := (redis_lists w)(key := redis_lists w key @ [msg]),
           redis_ttl := (redis_ttl w)(key := Some (3600 * 24)),
           clock_reads := Suc (clock_reads w)\<rparr>)"

text \<open>\<open>lrange(key, -limit, -1)\<close>: the last \<open>limit\<close> entries (all of them when \<open>limit = 0\<close>).\<close>

definition get_history :: "world \<Rightarrow> string \<Rightarrow> nat \<Rightarrow> stored_message list" where
  "get_history w conversation_id limit =
     (let xs = redis_lists w (conversation_key conversation_id)
      in if limit = 0 then xs else drop (length xs - limit) xs)"

definition format_for_llm :: "world \<Rightarrow> string \<Rightarrow> nat \<Rightarrow> bool \<Rightarrow> message list" where
  "format_for_llm w conversation_id limit include_system =
     (if include_system
      then [\<lparr>msg_role = ''system'',
             msg_content = ''You are a helpful AI assistant with access to documents via RAG.''\<rparr>]
      else [])
     @ map (\<lambda>msg. \<lparr>msg_role = st_role msg, msg_content = st_content msg\<rparr>)
         (get_history w conversation_id limit)"

text \<open>
  \<open>if conversation_id and self.conversation_manager:\<close> holds for a non-empty
  identifier when a manager is configured; the result is the identifier to use.
\<close>

definition active_conversation :: "'e env \<Rightarrow> string option \<Rightarrow> string option" where
  "active_conversation e conversation_id =
     (case conversation_id of
        None \<Rightarrow> None
      | Some c \<Rightarrow> (if c \<noteq> [] \<and> has_conversation_manager e then Some c else None))"

definition call_llm :: "'e env \<Rightarrow> world \<Rightarrow> message list \<Rightarrow> real \<Rightarrow> llm_response \<times> world" where
  "call_llm e w messages temperature =
     (let request = \<lparr>req_model = llm_model e, req_messages = messages,
                     req_temperature = temperature\<rparr>
      in (chat_completions_create e request, w\<lparr>llm_calls := llm_calls w @ [request]\<rparr>))"

subsection \<open>Text formatting\<close>

definition newline :: string where
  "newline = [CHR 0x0A]"

fun show_nat :: "nat \<Rightarrow> string" where
  "show_nat n =
     (if n < 10 then [char_of (48 + n)]
      else show_nat (n div 10) @ [char_of (48 + n mod 10)])"

text \<open>Truth value of a metadata value in an \<open>if\<close>.\<close>

fun json_truthy :: "json \<Rightarrow> bool" where
  "json_truthy JNull = False"
| "json_truthy (JBool b) = b"
| "json_truthy (JNum n) = (n \<noteq> 0)"
| "json_truthy (JStr s) = (s \<noteq> [])"
| "json_truthy (JArr xs) = (xs \<noteq> [])"
| "json_truthy (JObj kvs) = (kvs \<noteq> [])"

text \<open>\<open>metadata.get(key)\<close>: a JSON \<open>null\<close> is read back as \<open>None\<close>.\<close>

definition metadata_get :: "(string \<times> json) list \<Rightarrow> string \<Rightarrow> json option" where
  "metadata_get metadata key =
     (case map_of metadata key of
        None \<Rightarrow> None
      | Some v \<Rightarrow> (if v = JNull then None else Some v))"

definition format_source :: "'e env \<Rightarrow> nat \<Rightarrow> chunk \<times> real \<Rightarrow> string" where
  "format_source e i result =
     (let metadata = chunk_metadata (fst result);
          source_info = ''[Source '' @ show_nat i @ '': ''
            @ (case map_of metadata ''filename'' of
                 None \<Rightarrow> ''Unknown''
               | Some v \<Rightarrow> py_str e v);
          source_info = source_info
            @ (case metadata_get metadata ''section'' of
                 None \<Rightarrow> []
               | Some v \<Rightarrow> (if json_truthy v then '' - '' @ py_str e v else []));
          source_info = source_info @ '' (relevance: '' @ format_2f e (snd result) @ '')]''
      in source_info @ newline @ chunk_content (fst result) @ newline)"

text \<open>\<open>"\n".join(formatted)\<close>\<close>

fun join_lines :: "string list \<Rightarrow> string" where
  "join_lines [] = []"
| "join_lines [x] = x"
| "join_lines (x # y # ys) = x @ newline @ join_lines (y # ys)"

definition format_context :: "'e env \<Rightarrow> (chunk \<times> real) list \<Rightarrow> string" where
  "format_context e results =
     join_lines (map (\<lambda>(i, result). format_source e (Suc i) result)
                   (zip [0 ..< length results] results))"

definition format_results_for_context :: "web_result list \<Rightarrow> string" where
  "format_results_for_context results =
     (if results = [] then ''No web search results found.''
      else ''Web search results:'' @ newline @ newline
        @ concat (map (\<lambda>(i, result).
             show_nat (Suc i) @ ''. '' @ web_title result @ newline
             @ ''   '' @ web_snippet result @ newline
             @ ''   Source: '' @ web_link result @ newline @ newline)
             (zip [0 ..< length results] results)))"

subsection \<open>\<open>RAGSystem._answer_directly\<close>\<close>

text \<open>\<open>messages[0]["content"] += extra\<close>\<close>

definition extend_first :: "string \<Rightarrow> message list \<Rightarrow> error + message list" where
  "extend_first extra messages =
     (case messages of
        [] \<Rightarrow> Inl IndexError
      | m # ms \<Rightarrow> Inr (m\<lparr>msg_content := msg_content m @ extra\<rparr> # ms))"

definition save_exchange ::
  "'e env \<Rightarrow> world \<Rightarrow> string option \<Rightarrow> string \<Rightarrow> message_metadata \<Rightarrow> string
     \<Rightarrow> message_metadata \<Rightarrow> world" where
  "save_exchange e w conversation_id question user_metadata answer_text assistant_metadata =
     (case active_conversation e conversation_id of
        None \<Rightarrow> w
      | Some c \<Rightarrow>
          add_message e (add_message e w c ''user'' question user_metadata)
            c ''assistant'' answer_text assistant_metadata)"

definition answer_directly ::
  "'e env \<Rightarrow> world \<Rightarrow> string \<Rightarrow> string option \<Rightarrow> bool \<Rightarrow> error + query_result \<times> world" where
  "answer_directly e w question conversation_id eco_mode =
     (let messages =
            (case active_conversation e conversation_id of
               Some c \<Rightarrow> format_for_llm w c 3 True
             | None \<Rightarrow> [\<lparr>msg_role = ''system'',
                          msg_content = ''You are a helpful AI assistant.''\<rparr>])
      in case (if eco_mode
               then extend_first '' Be concise and direct in your answers.'' messages
               else Inr messages) of
           Inl err \<Rightarrow> Inl err
         | Inr messages \<Rightarrow>
             (let messages = messages @ [\<lparr>msg_role = ''user'', msg_content = question\<rparr>];
                  (response, w) = call_llm e w messages (float_round e (7 / 10));
                  answer_text = resp_content response;
                  w = save_exchange e w conversation_id question NoMetadata
                        answer_text NoMetadata
              in Inr (\<lparr>answer = answer_text, sources = [], tool_used = ''direct_llm'',
                        retrieval_method = None, reranked = None,
                        num_tokens = resp_total_tokens response\<rparr>, w)))"

subsection \<open>\<open>RAGSystem._answer_with_rag\<close>\<close>

text \<open>\<open>{"filename": filter_document} if filter_document else None\<close>\<close>

definition document_filter :: "string option \<Rightarrow> (string \<times> json) list option" where
  "document_filter filter_document =
     (case filter_document of
        None \<Rightarrow> None
      | Some d \<Rightarrow> (if d = [] then None else Some [(''filename'', JStr d)]))"

text \<open>Step 2, retrieval (rag.py lines 309 to 324).\<close>

definition rag_retrieve ::
  "'e env \<Rightarrow> 'e \<Rightarrow> int \<Rightarrow> bool \<Rightarrow> bool \<Rightarrow> (string \<times> json) list option
     \<Rightarrow> error + (chunk \<times> real) list" where
  "rag_retrieve e query_embedding k use_mmr use_rerank filter_metadata =
     (if use_mmr
      then mmr_search (float_round e) (vector_store e) query_embedding
             k (1 / 2) (k * 4) filter_metadata
      else similarity_search (float_round e) (vector_store e) query_embedding
             (if use_rerank then k * 2 else k) filter_metadata)"

text \<open>Step 3, optional reranking (rag.py lines 330 to 333).\<close>

definition rag_rerank ::
  "'e env \<Rightarrow> string \<Rightarrow> (chunk \<times> real) list \<Rightarrow> int \<Rightarrow> bool \<Rightarrow> (chunk \<times> real) list" where
  "rag_rerank e question results k use_rerank =
     (case reranker e of
        Some predict \<Rightarrow>
          (if use_rerank \<and> results \<noteq> [] then rerank predict question results k else results)
      | None \<Rightarrow> results)"

definition no_documents_result :: query_result where
  "no_documents_result =
     \<lparr>answer = ''I couldn't find relevant information in the documents.'',
      sources = [], tool_used = ''rag'', retrieval_method = Some ''similarity'',
      reranked = Some False, num_tokens = 0\<rparr>"

definition rag_source :: "chunk \<times> real \<Rightarrow> source" where
  "rag_source result =
     \<lparr>src_content = take 200 (chunk_content (fst result)) @ ''...'',
      src_filename = metadata_get (chunk_metadata (fst result)) ''filename'',
      src_section = metadata_get (chunk_metadata (fst result)) ''section'',
      src_score = snd result, src_link = None\<rparr>"

definition answer_with_rag ::
  "'e env \<Rightarrow> world \<Rightarrow> string \<Rightarrow> string option \<Rightarrow> int \<Rightarrow> bool \<Rightarrow> bool \<Rightarrow> bool \<Rightarrow> string option
     \<Rightarrow> error + query_result \<times> world" where
  "answer_with_rag e w question conversation_id k use_mmr use_rerank eco_mode filter_document =
     (let query_embedding = embed_text e question;
          filter_metadata = document_filter filter_document
      in case rag_retrieve e query_embedding k use_mmr use_rerank filter_metadata of
           Inl err \<Rightarrow> Inl err
         | Inr results \<Rightarrow>
             (let results = rag_rerank e question results k use_rerank
              in if results = [] then Inr (no_documents_result, w)
                 else
                   (let context = format_context e results;
                        messages =
                          (case active_conversation e conversation_id of
                             Some c \<Rightarrow> format_for_llm w c 2 False
                           | None \<Rightarrow> []);
                        system_prompt =
                          ''You are a helpful AI assistant. Answer based on the provided context.''
                          @ (if eco_mode then '' Be concise and direct.'' else []);
                        messages = \<lparr>msg_role = ''system'', msg_content = system_prompt\<rparr> # messages;
                        user_prompt = ''Context from documents:'' @ newline @ context
                          @ newline @ newline @ ''Question: '' @ question @ newline @ newline
                          @ ''Answer based on the context above. If the context doesn't contain relevant information, say so.'';
                        messages = messages @ [\<lparr>msg_role = ''user'', msg_content = user_prompt\<rparr>];
                        (response, w) = call_llm e w messages (float_round e (3 / 10));
                        answer_text = resp_content response;
                        sources_list = map rag_source results;
                        w = save_exchange e w conversation_id question
                              (SourcesUsed (length sources_list)) answer_text (Sources sources_list)
                    in Inr (\<lparr>answer = answer_text, sources = sources_list, tool_used = ''rag'',
                              retrieval_method = Some (if use_mmr then ''mmr'' else ''similarity''),
                              reranked = Some (use_rerank \<and> reranker e \<noteq> None),
                              num_tokens = resp_total_tokens response\<rparr>, w))))"

subsection \<open>\<open>RAGSystem._answer_with_web_search\<close>\<close>

definition no_web_result :: query_result where
  "no_web_result =
     \<lparr>answer = ''I couldn't find relevant information on the web.'',
      sources = [], tool_used = ''web_search'', retrieval_method = None,
      reranked = None, num_tokens = 0\<rparr>"

text \<open>The score of the \<open>i\<close>-th result is \<open>1.0 - (i * 0.1)\<close>.\<close>

definition web_source :: "(real \<Rightarrow> real) \<Rightarrow> nat \<times> web_result \<Rightarrow> source" where
  "web_source fl ir =
     \<lparr>src_content = take 200 (web_snippet (snd ir)) @ ''...'',
      src_filename = Some (JStr ''Web Search''),
      src_section = Some (JStr (web_title (snd ir))),
      src_score = fl (1 - fl (real (fst ir) * fl (1 / 10))),
      src_link = Some (web_link (snd ir))\<rparr>"

definition answer_with_web_search ::
  "'e env \<Rightarrow> world \<Rightarrow> string \<Rightarrow> string option \<Rightarrow> bool \<Rightarrow> error + query_result \<times> world" where
  "answer_with_web_search e w question conversation_id eco_mode =
     (case web_search_tool e of
        None \<Rightarrow> Inl AttributeError
      | Some search \<Rightarrow>
          (let search_results = search question 3
           in if search_results = [] then Inr (no_web_result, w)
              else
                (let context = format_results_for_context search_results;
                     messages =
                       (case active_conversation e conversation_id of
                          Some c \<Rightarrow> format_for_llm w c 2 False
                        | None \<Rightarrow> []);
                     system_prompt =
                       ''You are a helpful AI assistant. Answer based on the web search results provided.''
                       @ (if eco_mode then '' Be concise and direct.'' else []);
                     messages = \<lparr>msg_role = ''system'', msg_content = system_prompt\<rparr> # messages;
                     user_prompt = context @ newline @ newline @ ''Question: '' @ question
                       @ newline @ newline @ ''Answer based on the web search results above.'';
                     messages = messages @ [\<lparr>msg_role = ''user'', msg_content = user_prompt\<rparr>];
                     (response, w) = call_llm e w messages (float_round e (3 / 10));
                     answer_text = resp_content response;
                     sources_list = map (web_source (float_round e)) (zip [0 ..< length search_results] search_results);
                     w = save_exchange e w conversation_id question WebSearch
                           answer_text (WebSources sources_list)
                 in Inr (\<lparr>answer = answer_text, sources = sources_list,
                           tool_used = ''web_search'', retrieval_method = None,
                           reranked = None, num_tokens = resp_total_tokens response\<rparr>, w))))"

subsection \<open>\<open>RAGSystem.query\<close>\<close>

definition query ::
  "'e env \<Rightarrow> world \<Rightarrow> string \<Rightarrow> string option \<Rightarrow> int \<Rightarrow> bool \<Rightarrow> bool \<Rightarrow> bool \<Rightarrow> string option
     \<Rightarrow> error + query_result \<times> world" where
  "query e w question conversation_id k use_mmr use_rerank eco_mode filter_document =
     (case route_to_tool question of
        direct_llm \<Rightarrow> answer_directly e w question conversation_id eco_mode
      | web_search \<Rightarrow> answer_with_web_search e w question conversation_id eco_mode
      | rag \<Rightarrow> answer_with_rag e w question conversation_id k use_mmr use_rerank eco_mode
                 filter_document)"

section \<open>Example data\<close>

text \<open>
  The cosine distance of pgvector over exact reals, a rounding to multiples of \<open>2\<^sup>-\<^sup>1\<^sup>0\<close>
  standing for the arithmetic on doubles (every value computed on the example data is such
  a multiple, so nothing is lost), and a small store read by a sequential scan: a row close
  to the query vector \<open>[1, 0]\<close> and two rows with the same embedding at a right angle to
  it, one as long as the first row and one a hundred characters longer.
\<close>

definition dot :: "real list \<Rightarrow> real list \<Rightarrow> real" where
  "dot a b = sum_list (map (\<lambda>(x, y). x * y) (zip a b))"

definition cosine_distance :: "real list \<Rightarrow> real list \<Rightarrow> real" where
  "cosine_distance a b = 1 - dot a b / sqrt (dot a a * dot b b)"

definition grid_round :: "real \<Rightarrow> real" where
  "grid_round x = real_of_int \<lfloor>x * 1024 + 1 / 2\<rfloor> / 1024"

definition demo_table :: "real list doc_row list" where
  "demo_table =
     [\<lparr>row_id = ''1'', row_content = ''Machine learning'',
       row_metadata = [(''filename'', JStr ''a.pdf''), (''chunk_index'', JNum 0)],
       row_embedding = [1, 0]\<rparr>,
      \<lparr>row_id = ''2'', row_content = ''Neural networks.'',
       row_metadata = [(''filename'', JStr ''a.pdf''), (''chunk_index'', JNum 1)],
       row_embedding = [0, 1]\<rparr>,
      \<lparr>row_id = ''3'', row_content = replicate 116 (CHR ''x''),
       row_metadata = [(''filename'', JStr ''b.pdf''), (''chunk_index'', JNum 0)],
       row_embedding = [0, 1]\<rparr>]"

definition demo_store :: "real list vector_store" where
  "demo_store =
     \<lparr>store_rows = demo_table, store_distance = cosine_distance,
      store_reaches = (\<lambda>q r. True)\<rparr>"

definition demo_env :: "real list env" where
  "demo_env =
     \<lparr>embed_text = (\<lambda>text. [1, 0]),
      vector_store = demo_store,
      float_round = grid_round,
      has_conversation_manager = True,
      reranker = Some (map (\<lambda>pair. real (length (snd pair)))),
      llm_model = ''gpt-3.5-turbo'',
      chat_completions_create = (\<lambda>request. \<lparr>resp_content = ''Hi!'', resp_total_tokens = 42\<rparr>),
      web_search_tool = Some (\<lambda>text max_results. []),
      utcnow_isoformat = show_nat,
      format_2f = (\<lambda>score. ''0.00''),
      py_str = (\<lambda>v. case v of JStr s \<Rightarrow> s | _ \<Rightarrow> ''None'')\<rparr>"

definition empty_store_env :: "real list env" where
  "empty_store_env = demo_env\<lparr>vector_store := demo_store\<lparr>store_rows := []\<rparr>\<rparr>"

definition empty_world :: world where
  "empty_world =
     \<lparr>redis_lists = (\<lambda>key. []), redis_ttl = (\<lambda>key. None), clock_reads = 0, llm_calls = []\<rparr>"

section \<open>Specification-level notions\<close>

text \<open>
  What a conversation holds, as seen by a reader of its history: the roles and contents of
  its messages, in order.
\<close>

definition conversation_log :: "world \<Rightarrow> string \<Rightarrow> (string \<times> string) list" where
  "conversation_log w key = map (\<lambda>m. (st_role m, st_content m)) (redis_lists w key)"

text \<open>
  The query ends in one of the two "no results" returns: the web search gave nothing, or the
  rag path holds no chunk after retrieval and optional reranking.
\<close>

definition no_results_return ::
  "'e env \<Rightarrow> string \<Rightarrow> int \<Rightarrow> bool \<Rightarrow> bool \<Rightarrow> string option \<Rightarrow> bool" where
  "no_results_return e question k use_mmr use_rerank filter_document =
     (case route_to_tool question of
        direct_llm \<Rightarrow> False
      | web_search \<Rightarrow>
          (case web_search_tool e of None \<Rightarrow> False | Some search \<Rightarrow> search question 3 = [])
      | rag \<Rightarrow>
          (case rag_retrieve e (embed_text e question) k use_mmr use_rerank
                  (document_filter filter_document) of
             Inl err \<Rightarrow> False
           | Inr pool \<Rightarrow> rag_rerank e question pool k use_rerank = []))"

text \<open>Order of a result list by score: non-increasing, and strictly decreasing.\<close>

definition descending :: "('a \<times> real) list \<Rightarrow> bool" where
  "descending res = sorted_wrt (\<lambda>a b. snd b \<le> snd a) res"

definition strictly_descending :: "('a \<times> real) list \<Rightarrow> bool" where
  "strictly_descending res = sorted_wrt (\<lambda>a b. snd b < snd a) res"

text \<open>
  A chunk without metadata, and a toy cross-encoder that scores a pair by the length of its
  content, used to run the reranker on concrete inputs.
\<close>

definition demo_chunk :: "string \<Rightarrow> string \<Rightarrow> chunk" where
  "demo_chunk ident text =
     \<lparr>chunk_id = ident, chunk_content = text, chunk_metadata = [], chunk_similarity = None\<rparr>"

definition length_scorer :: "(string \<times> string) list \<Rightarrow> real list" where
  "length_scorer pairs = map (\<lambda>pair. real (length (snd pair))) pairs"

text \<open>
  The greedy selection in the words of the specification: the score of an unselected
  candidate is \<open>lambda * relevance - (1 - lambda) * maxSimilarityToSelected\<close>, where the
  last factor is the maximum, over the selected items, of the length-difference proxy.
\<close>

definition greedy_mmr_score :: "(real \<Rightarrow> real) \<Rightarrow> real \<Rightarrow> hit list \<Rightarrow> hit \<Rightarrow> real" where
  "greedy_mmr_score fl lambda_mult selected candidate =
     fl (fl (lambda_mult * hit_similarity candidate)
         - fl (fl (1 - lambda_mult)
               * Max ((\<lambda>sel. fl (1 / fl (1 + fl (real_of_int
                                \<bar>int (length (hit_content candidate))
                                 - int (length (hit_content sel))\<bar> / 100))))
                      ` set selected)))"

text \<open>The candidate with the highest score, the first one encountered on ties.\<close>

definition greedy_best :: "(real \<Rightarrow> real) \<Rightarrow> real \<Rightarrow> hit list \<Rightarrow> hit list \<Rightarrow> hit" where
  "greedy_best fl lambda_mult selected remaining =
     hd (filter (\<lambda>c. \<forall>c'\<in>set remaining.
                     greedy_mmr_score fl lambda_mult selected c'
                       \<le> greedy_mmr_score fl lambda_mult selected c) remaining)"

lemma first_maximal_mem:
  fixes f :: "'a \<Rightarrow> real"
  assumes "xs \<noteq> []"
  shows "hd (filter (\<lambda>c. \<forall>c'\<in>set xs. f c' \<le> f c) xs) \<in> set xs"
proof -
  have "finite (f ` set xs)" "f ` set xs \<noteq> {}"
    using assms by simp_all
  then have "Max (f ` set xs) \<in> f ` set xs"
    by (rule Max_in)
  then obtain c where c: "c \<in> set xs" "f c = Max (f ` set xs)"
    by (metis imageE)
  then have "\<forall>c'\<in>set xs. f c' \<le> f c"
    by simp
  with c(1) have "filter (\<lambda>c. \<forall>c'\<in>set xs. f c' \<le> f c) xs \<noteq> []"
    by (simp add: filter_empty_conv) blast
  then have "hd (filter (\<lambda>c. \<forall>c'\<in>set xs. f c' \<le> f c) xs)
      \<in> set (filter (\<lambda>c. \<forall>c'\<in>set xs. f c' \<le> f c) xs)"
    by (rule hd_in_set)
  then show ?thesis
    by simp
qed

lemma greedy_best_mem:
  "remaining \<noteq> [] \<Longrightarrow> greedy_best fl lambda_mult selected remaining \<in> set remaining"
  unfolding greedy_best_def by (rule first_maximal_mem)

text \<open>
  Repeat until \<open>k\<close> items are selected or the candidates are exhausted: move the best
  unselected candidate to the end of the selection.
\<close>

function greedy_select ::
  "(real \<Rightarrow> real) \<Rightarrow> int \<Rightarrow> real \<Rightarrow> hit list \<Rightarrow> hit list \<Rightarrow> hit list" where
  "greedy_select fl k lambda_mult selected remaining =
     (if int (length selected) < k \<and> remaining \<noteq> [] then
        (let best = greedy_best fl lambda_mult selected remaining
         in greedy_select fl k lambda_mult (selected @ [best]) (remove1 best remaining))
      else selected)"
  by pat_completeness auto

termination greedy_select
proof (relation "measure (\<lambda>(fl, k, lambda_mult, selected, remaining). length remaining)")
  show "wf (measure (\<lambda>(fl, k, lambda_mult, selected, remaining). length remaining))"
    by simp
next
  fix fl :: "real \<Rightarrow> real" and k :: int and lambda_mult :: real
    and selected remaining :: "hit list" and best :: hit
  assume "int (length selected) < k \<and> remaining \<noteq> []"
    and "best = greedy_best fl lambda_mult selected remaining"
  then have "best \<in> set remaining"
    by (simp add: greedy_best_mem)
  then have "length (remove1 best remaining) < length remaining"
    by (simp add: length_remove1) (cases remaining; simp)
  then show "((fl, k, lambda_mult, selected @ [best], remove1 best remaining),
              (fl, k, lambda_mult, selected, remaining))
             \<in> measure (\<lambda>(fl, k, lambda_mult, selected, remaining). length remaining)"
    by simp
qed

declare greedy_select.simps [simp del]

text \<open>
  The rows a scan for a query vector reaches, and the full ranking the \<open>SELECT\<close> cuts with
  its \<open>LIMIT\<close>: the reached rows by increasing distance, each with its similarity.
\<close>

definition reached_rows :: "'e vector_store \<Rightarrow> 'e \<Rightarrow> 'e doc_row list" where
  "reached_rows store q = filter (store_reaches store q) (store_rows store)"

definition ranked_hits :: "(real \<Rightarrow> real) \<Rightarrow> 'e vector_store \<Rightarrow> 'e \<Rightarrow> hit list" where
  "ranked_hits fl store q =
     map (row_to_hit fl store q)
       (sort_key (\<lambda>r. store_distance store (row_embedding r) q) (reached_rows store q))"

text \<open>The first element of a list whose value no element of the list exceeds.\<close>

definition first_best :: "('a \<Rightarrow> real) \<Rightarrow> 'a list \<Rightarrow> 'a" where
  "first_best f xs = hd (filter (\<lambda>c. \<forall>c'\<in>set xs. f c' \<le> f c) xs)"

text \<open>The candidates the example store returns for the query vector \<open>[1, 0]\<close>.\<close>

definition demo_hit :: "nat \<Rightarrow> hit" where
  "demo_hit i = row_to_hit grid_round demo_store [1, 0] (demo_table ! i)"

section \<open>Orchestrator: the "no results" returns\<close>

lemma answer_with_rag_no_results:
  assumes "rag_retrieve e (embed_text e question) k use_mmr use_rerank
             (document_filter filter_document) = Inr []"
  shows "answer_with_rag e w question conversation_id k use_mmr use_rerank eco_mode
           filter_document = Inr (no_documents_result, w)"
  using assms by (simp add: answer_with_rag_def rag_rerank_def split: option.splits)

lemma answer_with_web_search_no_results:
  assumes "web_search_tool e = Some search" "search question 3 = []"
  shows "answer_with_web_search e w question conversation_id eco_mode = Inr (no_web_result, w)"
  using assms by (simp add: answer_with_web_search_def)

lemma empty_store_retrieve:
  "rag_retrieve empty_store_env q 5 use_mmr use_rerank (document_filter None) = Inr []"
  by (simp add: rag_retrieve_def empty_store_env_def demo_env_def demo_store_def mmr_search_def
      similarity_search_def execute_select_def truthy_filter_def sql_select_def bind_select_def
      document_filter_def)

lemma route_random_question: "route_to_tool ''random unrelated question'' = rag"
  by code_simp

lemma route_weather_question: "route_to_tool ''what's the weather today'' = web_search"
  by code_simp

text \<open>
  Claim C8. When the retrieval of the rag path returns no chunk, \<open>_answer_with_rag\<close>
  returns (it raises nothing) the fixed answer "I couldn't find relevant information in
  the documents." with no sources and \<open>num_tokens = 0\<close>; when the web search returns no
  result, \<open>_answer_with_web_search\<close> returns the fixed answer "I couldn't find relevant
  information on the web." with no sources and \<open>num_tokens = 0\<close>. In both cases the
  world is returned as it was, so the log of LLM requests has not grown: no LLM call
  was made.
\<close>

theorem no_results_canned_answer:
  "(rag_retrieve e (embed_text e question) k use_mmr use_rerank
      (document_filter filter_document) = Inr []
      \<longrightarrow> answer_with_rag e w question conversation_id k use_mmr use_rerank eco_mode
            filter_document
            = Inr (\<lparr>answer = ''I couldn't find relevant information in the documents.'',
                     sources = [], tool_used = ''rag'', retrieval_method = Some ''similarity'',
                     reranked = Some False, num_tokens = 0\<rparr>, w))
   \<and> (web_search_tool e = Some search \<and> search question 3 = []
      \<longrightarrow> answer_with_web_search e w question conversation_id eco_mode
            = Inr (\<lparr>answer = ''I couldn't find relevant information on the web.'',
                     sources = [], tool_used = ''web_search'', retrieval_method = None,
                     reranked = None, num_tokens = 0\<rparr>, w))"
  using answer_with_rag_no_results
      [of e question k use_mmr use_rerank filter_document w conversation_id eco_mode]
    answer_with_web_search_no_results [of e search question w conversation_id eco_mode]
  by (simp add: no_documents_result_def no_web_result_def)

theorem no_results_canned_answer_witness:
  "query empty_store_env empty_world ''random unrelated question'' (Some ''c1'') 5 True True
     False None
     = Inr (\<lparr>answer = ''I couldn't find relevant information in the documents.'',
              sources = [], tool_used = ''rag'', retrieval_method = Some ''similarity'',
              reranked = Some False, num_tokens = 0\<rparr>, empty_world)
   \<and> query demo_env empty_world ''what's the weather today'' (Some ''c1'') 5 False False
     False None
     = Inr (\<lparr>answer = ''I couldn't find relevant information on the web.'',
              sources = [], tool_used = ''web_search'', retrieval_method = None,
              reranked = None, num_tokens = 0\<rparr>, empty_world)"
proof -
  have tool: "web_search_tool demo_env = Some (\<lambda>text max_results. [])"
    by (simp add: demo_env_def)
  show ?thesis
    using no_results_canned_answer
        [where e = empty_store_env and question = "''random unrelated question''"
          and k = 5 and use_mmr = True and use_rerank = True and filter_document = None
          and w = empty_world and conversation_id = "Some ''c1''" and eco_mode = False]
      no_results_canned_answer
        [where e = demo_env and question = "''what's the weather today''"
          and search = "\<lambda>text max_results. []" and w = empty_world
          and conversation_id = "Some ''c1''" and eco_mode = False]
      empty_store_retrieve tool
    by (simp add: query_def route_random_question route_weather_question)
qed

text \<open>
  Claim C10. A query routed to the rag path whose retrieval returns no chunk reports
  \<open>retrieval_method = "similarity"\<close> and \<open>reranked = False\<close>, whatever \<open>use_mmr\<close> and
  \<open>use_rerank\<close> were.
\<close>

theorem no_results_reports_similarity:
  assumes "route_to_tool question = rag"
    and "rag_retrieve e (embed_text e question) k use_mmr use_rerank
           (document_filter filter_document) = Inr []"
  shows "\<exists>r w'. query e w question conversation_id k use_mmr use_rerank eco_mode filter_document
                  = Inr (r, w')
               \<and> retrieval_method r = Some ''similarity'' \<and> reranked r = Some False"
  using assms answer_with_rag_no_results [OF assms(2)]
  by (simp add: query_def no_documents_result_def)

theorem no_results_reports_similarity_witness:
  "(case query empty_store_env empty_world ''random unrelated question'' None 5 True True
           False None of
      Inl err \<Rightarrow> False
    | Inr (r, w') \<Rightarrow> retrieval_method r = Some ''similarity'' \<and> reranked r = Some False)"
  using no_results_reports_similarity [OF route_random_question, of empty_store_env 5 True True
      None empty_world None False] empty_store_retrieve
  by auto


section \<open>Orchestrator: conversation persistence\<close>

lemma save_exchange_log:
  assumes "active_conversation e conversation_id = Some c"
  shows "conversation_log (save_exchange e w conversation_id question um ans am) (conversation_key c)
           = conversation_log w (conversation_key c) @ [(''user'', question), (''assistant'', ans)]"
    and "key \<noteq> conversation_key c \<Longrightarrow>
           redis_lists (save_exchange e w conversation_id question um ans am) key = redis_lists w key"
  using assms by (simp_all add: save_exchange_def add_message_def conversation_log_def Let_def)

lemma call_llm_redis: "redis_lists (snd (call_llm e w ms t)) = redis_lists w"
  by (simp add: call_llm_def Let_def)

lemma call_llm_log: "conversation_log (snd (call_llm e w ms t)) key = conversation_log w key"
  by (simp add: conversation_log_def call_llm_redis)

lemma answer_directly_log:
  assumes "answer_directly e w question conversation_id eco_mode = Inr (r, w')"
    and "active_conversation e conversation_id = Some c"
  shows "conversation_log w' (conversation_key c)
           = conversation_log w (conversation_key c) @ [(''user'', question), (''assistant'', answer r)]"
    and "key \<noteq> conversation_key c \<Longrightarrow> redis_lists w' key = redis_lists w key"
  using assms
  by (auto simp: answer_directly_def Let_def save_exchange_log [OF assms(2)] call_llm_log
      call_llm_redis extend_first_def split: sum.splits if_splits prod.splits list.splits
      dest!: arg_cong [where f = snd])

lemma answer_with_rag_log:
  assumes "answer_with_rag e w question conversation_id k use_mmr use_rerank eco_mode fd = Inr (r, w')"
    and "active_conversation e conversation_id = Some c"
    and "rag_retrieve e (embed_text e question) k use_mmr use_rerank (document_filter fd) = Inr pool"
    and "rag_rerank e question pool k use_rerank \<noteq> []"
  shows "conversation_log w' (conversation_key c)
           = conversation_log w (conversation_key c) @ [(''user'', question), (''assistant'', answer r)]"
    and "key \<noteq> conversation_key c \<Longrightarrow> redis_lists w' key = redis_lists w key"
  using assms
  by (auto simp: answer_with_rag_def Let_def save_exchange_log [OF assms(2)] call_llm_log
      call_llm_redis split: sum.splits if_splits prod.splits
      dest!: arg_cong [where f = snd])

lemma answer_with_web_search_log:
  assumes "answer_with_web_search e w question conversation_id eco_mode = Inr (r, w')"
    and "active_conversation e conversation_id = Some c"
    and "web_search_tool e = Some search"
    and "search question 3 \<noteq> []"
  shows "conversation_log w' (conversation_key c)
           = conversation_log w (conversation_key c) @ [(''user'', question), (''assistant'', answer r)]"
    and "key \<noteq> conversation_key c \<Longrightarrow> redis_lists w' key = redis_lists w key"
  using assms
  by (auto simp: answer_with_web_search_def Let_def save_exchange_log [OF assms(2)] call_llm_log
      call_llm_redis split: sum.splits if_splits prod.splits
      dest!: arg_cong [where f = snd])

lemma answer_with_rag_early:
  assumes "answer_with_rag e w question conversation_id k use_mmr use_rerank eco_mode fd = Inr (r, w')"
    and "rag_retrieve e (embed_text e question) k use_mmr use_rerank (document_filter fd) = Inr pool"
    and "rag_rerank e question pool k use_rerank = []"
  shows "w' = w"
  using assms by (simp add: answer_with_rag_def Let_def)

lemma answer_with_web_search_early:
  assumes "answer_with_web_search e w question conversation_id eco_mode = Inr (r, w')"
    and "web_search_tool e = Some search" and "search question 3 = []"
  shows "w' = w"
  using assms by (simp add: answer_with_web_search_def Let_def)

text \<open>
  Claim C9. For a query with a conversation identifier and a configured conversation
  manager that returns: on the "no results" returns of the rag and web-search paths the
  Redis lists are unchanged; on every other return (direct answer, web search with
  results, rag with results) exactly the user question and the assistant answer are
  appended to the conversation, in that order, and no other list changes.
\<close>

theorem conversation_saved_only_on_success:
  assumes "query e w question conversation_id k use_mmr use_rerank eco_mode filter_document
             = Inr (r, w')"
    and "active_conversation e conversation_id = Some c"
  shows "(no_results_return e question k use_mmr use_rerank filter_document
            \<longrightarrow> redis_lists w' = redis_lists w)
       \<and> (\<not> no_results_return e question k use_mmr use_rerank filter_document
            \<longrightarrow> conversation_log w' (conversation_key c)
                  = conversation_log w (conversation_key c)
                    @ [(''user'', question), (''assistant'', answer r)]
                \<and> (\<forall>key. key \<noteq> conversation_key c
                      \<longrightarrow> redis_lists w' key = redis_lists w key))"
proof (cases "route_to_tool question")
  case direct_llm
  with assms show ?thesis
    using answer_directly_log [of e w question conversation_id eco_mode r w' c]
    by (simp add: query_def no_results_return_def)
next
  case web_search
  with assms show ?thesis
    using answer_with_web_search_log [of e w question conversation_id eco_mode r w' c]
      answer_with_web_search_early [of e w question conversation_id eco_mode r w']
    by (auto simp: query_def no_results_return_def answer_with_web_search_def
        split: option.splits)
next
  case rag
  with assms show ?thesis
    using answer_with_rag_log [of e w question conversation_id k use_mmr use_rerank eco_mode
        filter_document r w' c]
      answer_with_rag_early [of e w question conversation_id k use_mmr use_rerank eco_mode
        filter_document r w']
    by (auto simp: query_def no_results_return_def answer_with_rag_def split: sum.splits)
qed


lemma route_hello: "route_to_tool ''hello there'' = direct_llm"
  by code_simp

theorem conversation_saved_only_on_success_witness:
  "(case query empty_store_env empty_world ''random unrelated question'' (Some ''c1'') 5 True True
           False None of
      Inl err \<Rightarrow> False
    | Inr (r, w') \<Rightarrow> redis_lists w' = redis_lists empty_world)
   \<and> (case query demo_env empty_world ''hello there'' (Some ''c1'') 5 False False False None of
      Inl err \<Rightarrow> False
    | Inr (r, w') \<Rightarrow>
        conversation_log w' ''conversation:c1''
          = [(''user'', ''hello there''), (''assistant'', ''Hi!'')])"
proof -
  have active: "active_conversation demo_env (Some ''c1'') = Some ''c1''"
    "active_conversation empty_store_env (Some ''c1'') = Some ''c1''"
    by (simp_all add: active_conversation_def demo_env_def empty_store_env_def)
  have q1: "query empty_store_env empty_world ''random unrelated question'' (Some ''c1'') 5 True True
              False None = Inr (no_documents_result, empty_world)"
    by (simp add: query_def route_random_question answer_with_rag_no_results empty_store_retrieve)
  have n1: "no_results_return empty_store_env ''random unrelated question'' 5 True True None"
    by (simp add: no_results_return_def route_random_question empty_store_retrieve
        rag_rerank_def split: option.splits)
  obtain r w' where q2: "query demo_env empty_world ''hello there'' (Some ''c1'') 5 False False
              False None = Inr (r, w')" and a2: "answer r = ''Hi!''"
    by (simp add: query_def route_hello answer_directly_def active call_llm_def Let_def
        demo_env_def)
  have n2: "\<not> no_results_return demo_env ''hello there'' 5 False False None"
    by (simp add: no_results_return_def route_hello)
  have l0: "conversation_log empty_world (conversation_key ''c1'') = []"
    by (simp add: conversation_log_def empty_world_def)
  show ?thesis
    using conversation_saved_only_on_success [OF q1 active(2)]
      conversation_saved_only_on_success [OF q2 active(1)] n1 n2 a2 l0
    by (simp add: q1 q2 conversation_key_def)
qed

section \<open>Tool router: classification\<close>

lemma str_in_iff: "str_in kw text \<longleftrightarrow> (\<exists>ps ss. text = ps @ kw @ ss)"
  by (simp add: str_in_def sublist_def)

lemma list_ex_str_in:
  "list_ex (\<lambda>kw. str_in kw text) kws \<longleftrightarrow> (\<exists>kw\<in>set kws. \<exists>ps ss. text = ps @ kw @ ss)"
  by (simp add: list_ex_iff str_in_iff)

lemma lower_append: "lower (a @ b) = lower a @ lower b"
  by (simp add: lower_def)

lemma greeting_keywords_lower: "kw \<in> set greeting_keywords \<Longrightarrow> lower kw = kw"
  by (auto simp: greeting_keywords_def lower_def lower_char_def)

lemma route_to_tool_chain:
  "route_to_tool question =
     (if (\<exists>kw\<in>set greeting_keywords. \<exists>ps ss. lower question = ps @ kw @ ss) then direct_llm
      else if (\<exists>kw\<in>set web_search_keywords. \<exists>ps ss. lower question = ps @ kw @ ss)
        then web_search
      else if (\<exists>kw\<in>set rag_keywords. \<exists>ps ss. lower question = ps @ kw @ ss) then rag
      else rag)"
  unfolding route_to_tool_def Let_def list_ex_str_in by (rule refl)

lemma route_greeting_anywhere:
  assumes "kw \<in> set greeting_keywords"
  shows "route_to_tool (ps @ kw @ ss) = direct_llm"
proof -
  have "lower (ps @ kw @ ss) = lower ps @ kw @ lower ss"
    using assms by (simp add: lower_append greeting_keywords_lower)
  with assms have "\<exists>g\<in>set greeting_keywords. \<exists>p s. lower (ps @ kw @ ss) = p @ g @ s"
    by blast
  then show ?thesis
    by (simp add: route_to_tool_chain)
qed

lemma route_case_insensitive: "lower q1 = lower q2 \<Longrightarrow> route_to_tool q1 = route_to_tool q2"
  by (simp add: route_to_tool_def)

lemma route_document_question: "route_to_tool ''according to the document, what is X'' = rag"
  by code_simp

text \<open>
  Claim C2. The router checks the keyword categories in order on the lower-cased question
  and returns the first that matches, a keyword matching when it occurs anywhere in the
  text as a contiguous block: a greeting keyword gives \<open>direct_llm\<close>, otherwise a real-time
  keyword gives \<open>web_search\<close>, otherwise a document keyword gives \<open>rag\<close>, otherwise \<open>rag\<close>.
  A greeting keyword wins wherever it stands and whatever surrounds it; questions that
  differ only in letter case are routed alike; and the four example questions are routed
  to \<open>direct_llm\<close>, \<open>web_search\<close>, \<open>rag\<close> and \<open>rag\<close>.
\<close>

theorem route_to_tool_classification:
  "route_to_tool question =
     (if (\<exists>kw\<in>set greeting_keywords. \<exists>ps ss. lower question = ps @ kw @ ss) then direct_llm
      else if (\<exists>kw\<in>set web_search_keywords. \<exists>ps ss. lower question = ps @ kw @ ss)
        then web_search
      else if (\<exists>kw\<in>set rag_keywords. \<exists>ps ss. lower question = ps @ kw @ ss) then rag
      else rag)
   \<and> (\<forall>kw\<in>set greeting_keywords. \<forall>ps ss. route_to_tool (ps @ kw @ ss) = direct_llm)
   \<and> (\<forall>other. lower other = lower question \<longrightarrow> route_to_tool other = route_to_tool question)
   \<and> route_to_tool ''hello there'' = direct_llm
   \<and> route_to_tool ''what's the weather today'' = web_search
   \<and> route_to_tool ''according to the document, what is X'' = rag
   \<and> route_to_tool ''random unrelated question'' = rag"
proof (intro conjI)
  show "route_to_tool question =
     (if (\<exists>kw\<in>set greeting_keywords. \<exists>ps ss. lower question = ps @ kw @ ss) then direct_llm
      else if (\<exists>kw\<in>set web_search_keywords. \<exists>ps ss. lower question = ps @ kw @ ss)
        then web_search
      else if (\<exists>kw\<in>set rag_keywords. \<exists>ps ss. lower question = ps @ kw @ ss) then rag
      else rag)"
    by (rule route_to_tool_chain)
  show "\<forall>kw\<in>set greeting_keywords. \<forall>ps ss. route_to_tool (ps @ kw @ ss) = direct_llm"
    using route_greeting_anywhere by blast
  show "\<forall>other. lower other = lower question \<longrightarrow> route_to_tool other = route_to_tool question"
    using route_case_insensitive by blast
qed (rule route_hello route_weather_question route_document_question route_random_question)+

theorem route_to_tool_classification_witness:
  "route_to_tool ''What is machine learning?'' = direct_llm
   \<and> route_to_tool ''HELLO THERE'' = direct_llm"
proof -
  have kw: "''hi'' \<in> set greeting_keywords"
    by (simp add: greeting_keywords_def)
  have low: "lower ''HELLO THERE'' = lower ''hello there''"
    by code_simp
  have split: "''What is machine learning?'' = ''What is mac'' @ ''hi'' @ ''ne learning?''"
    by simp
  have all: "(\<forall>kw\<in>set greeting_keywords. \<forall>ps ss. route_to_tool (ps @ kw @ ss) = direct_llm)
      \<and> (\<forall>other. lower other = lower ''hello there''
            \<longrightarrow> route_to_tool other = route_to_tool ''hello there'')
      \<and> route_to_tool ''hello there'' = direct_llm"
    using route_to_tool_classification [of "''hello there''"] by blast
  from all kw have "route_to_tool (''What is mac'' @ ''hi'' @ ''ne learning?'') = direct_llm"
    by blast
  moreover from all low have "route_to_tool ''HELLO THERE'' = direct_llm"
    by metis
  ultimately show ?thesis
    by (simp only: split [symmetric] simp_thms)
qed
section \<open>Vector store: similarity search\<close>

lemma grid_round_rounding: "float_rounding grid_round"
proof -
  have mono: "grid_round x \<le> grid_round y" if "x \<le> y" for x y
  proof -
    from that have "\<lfloor>x * 1024 + 1 / 2\<rfloor> \<le> \<lfloor>y * 1024 + 1 / 2\<rfloor>"
      by (intro floor_mono) simp
    then show ?thesis
      by (simp add: grid_round_def divide_right_mono)
  qed
  have idem: "grid_round (grid_round x) = grid_round x" for x
  proof -
    define m where "m = \<lfloor>x * 1024 + 1 / 2\<rfloor>"
    have "\<lfloor>real_of_int m + 1 / 2\<rfloor> = m"
      by linarith
    then show ?thesis
      by (simp add: grid_round_def m_def [symmetric])
  qed
  have zero: "grid_round 0 = 0"
    by (simp add: grid_round_def)
  from mono idem zero show ?thesis
    by (simp add: float_rounding_def)
qed

lemma float_rounding_mono: "float_rounding fl \<Longrightarrow> x \<le> y \<Longrightarrow> fl x \<le> fl y"
  by (simp add: float_rounding_def)

lemma float_rounding_nonneg: "float_rounding fl \<Longrightarrow> 0 \<le> x \<Longrightarrow> 0 \<le> fl x"
  using float_rounding_mono [of fl 0 x] by (simp add: float_rounding_def)

lemma execute_select_filtered:
  "truthy_filter filter_metadata = Some f \<Longrightarrow>
     execute_select fl store q limit filter_metadata = Inl DatabaseError"
  by (simp add: execute_select_def sql_select_def bind_select_def)

lemma execute_select_unfiltered:
  "truthy_filter filter_metadata = None \<Longrightarrow>
     execute_select fl store q limit filter_metadata =
       (if limit < 0 then Inl DatabaseError
        else Inr (take (nat limit) (ranked_hits fl store q)))"
  by (simp add: execute_select_def sql_select_def bind_select_def ranked_hits_def
      reached_rows_def where_matches_def take_map)

lemma execute_select_Inr:
  assumes "execute_select fl store q limit filter_metadata = Inr hits"
  shows "truthy_filter filter_metadata = None" and "0 \<le> limit"
    and "hits = take (nat limit) (ranked_hits fl store q)"
proof -
  show none: "truthy_filter filter_metadata = None"
  proof (cases "truthy_filter filter_metadata")
    case (Some f)
    from execute_select_filtered [OF this, of fl store q limit] assms show ?thesis by simp
  qed simp
  from assms show "0 \<le> limit" and "hits = take (nat limit) (ranked_hits fl store q)"
    unfolding execute_select_unfiltered [OF none] by (simp_all split: if_splits)
qed

lemma length_ranked_hits: "length (ranked_hits fl store q) = length (reached_rows store q)"
  by (simp add: ranked_hits_def)

lemma length_reached_rows: "length (reached_rows store q) \<le> length (store_rows store)"
  by (simp add: reached_rows_def)

lemma ranked_hits_rows:
  assumes "h \<in> set (ranked_hits fl store q)"
  shows "\<exists>r\<in>set (store_rows store). h = row_to_hit fl store q r"
proof -
  from assms obtain r where "r \<in> set (reached_rows store q)" and "h = row_to_hit fl store q r"
    unfolding ranked_hits_def set_map set_sort by blast
  then show ?thesis
    unfolding reached_rows_def by (metis filter_is_subset subsetD)
qed

lemma ranked_hits_sorted:
  assumes "float_rounding fl"
  shows "sorted_wrt (\<lambda>a b. hit_similarity b \<le> hit_similarity a) (ranked_hits fl store q)"
proof -
  let ?key = "\<lambda>r. store_distance store (row_embedding r) q"
  let ?rows = "sort_key ?key (reached_rows store q)"
  have "sorted (map ?key ?rows)"
    by (rule sorted_sort_key)
  then have "sorted_wrt (\<lambda>a b. ?key a \<le> ?key b) ?rows"
    by (simp add: sorted_map)
  then have "sorted_wrt (\<lambda>a b. hit_similarity (row_to_hit fl store q b)
                               \<le> hit_similarity (row_to_hit fl store q a)) ?rows"
    by (rule sorted_wrt_mono_rel [rotated])
      (simp add: row_to_hit_def float_rounding_mono [OF assms])
  then show ?thesis
    by (simp add: ranked_hits_def sorted_wrt_map)
qed

lemma similarity_search_Inr:
  assumes "similarity_search fl store q k filter_metadata = Inr res"
  shows "0 \<le> k" and "truthy_filter filter_metadata = None"
    and "res = map (\<lambda>row. (hit_to_dict row, hit_similarity row))
                 (take (nat k) (ranked_hits fl store q))"
proof -
  from assms obtain hits where sel: "execute_select fl store q k filter_metadata = Inr hits"
    and res: "res = map (\<lambda>row. (hit_to_dict row, hit_similarity row)) hits"
    by (simp add: similarity_search_def split: sum.splits)
  from execute_select_Inr [OF sel] res
  show "0 \<le> k" and "truthy_filter filter_metadata = None"
    and "res = map (\<lambda>row. (hit_to_dict row, hit_similarity row))
                 (take (nat k) (ranked_hits fl store q))"
    by simp_all
qed

text \<open>
  Both searches raise as soon as a non-empty filter is given: \<open>execute\<close> receives the
  filter first, where the statement expects the vector of the \<open>SELECT\<close> list.
\<close>

lemma filtered_search_raises:
  assumes "filter_metadata = Some f" and "f \<noteq> []"
  shows "similarity_search fl store q k filter_metadata = Inl DatabaseError"
    and "mmr_search fl store q k lambda_mult fetch_k filter_metadata = Inl DatabaseError"
proof -
  from assms have "truthy_filter filter_metadata = Some f"
    by (simp add: truthy_filter_def)
  then show "similarity_search fl store q k filter_metadata = Inl DatabaseError"
    and "mmr_search fl store q k lambda_mult fetch_k filter_metadata = Inl DatabaseError"
    by (simp_all add: similarity_search_def mmr_search_def execute_select_filtered)
qed

text \<open>
  Claim C6, as amended. A similarity search that returns gives at most \<open>k\<close> scored chunks,
  ordered by descending score, not strictly (rows at the same distance have the same score);
  every score is \<open>1 - cosine_distance\<close>, computed on doubles, between the embedding of a
  stored row and the query vector, and the chunk carries that row's identifier, content
  and metadata. What a search with a metadata filter returns is left out: with the
  argument order of \<open>execute\<close> above it returns nothing.
\<close>

theorem similarity_search_result:
  assumes "float_rounding fl"
    and "similarity_search fl store q k filter_metadata = Inr res"
  shows "int (length res) \<le> k
       \<and> descending res
       \<and> (\<forall>(c, s)\<in>set res. \<exists>r\<in>set (store_rows store).
             s = fl (1 - store_distance store (row_embedding r) q)
             \<and> c = \<lparr>chunk_id = row_id r, chunk_content = row_content r,
                    chunk_metadata = row_metadata r, chunk_similarity = Some s\<rparr>)"
proof -
  note r = similarity_search_Inr [OF assms(2)]
  let ?hits = "take (nat k) (ranked_hits fl store q)"
  have len: "int (length res) \<le> k"
    using r(1) by (simp add: r(3))
  have "sorted_wrt (\<lambda>a b. hit_similarity b \<le> hit_similarity a) ?hits"
    by (intro sorted_wrt_take ranked_hits_sorted assms(1))
  then have desc: "descending res"
    by (simp add: r(3) descending_def sorted_wrt_map)
  have rows: "\<exists>r\<in>set (store_rows store).
                s = fl (1 - store_distance store (row_embedding r) q)
                \<and> c = \<lparr>chunk_id = row_id r, chunk_content = row_content r,
                       chunk_metadata = row_metadata r, chunk_similarity = Some s\<rparr>"
    if "(c, s) \<in> set res" for c s
  proof -
    from that have "(c, s) \<in> (\<lambda>row. (hit_to_dict row, hit_similarity row)) ` set ?hits"
      by (simp only: r(3) set_map)
    then obtain h where h: "h \<in> set ?hits" "c = hit_to_dict h" "s = hit_similarity h"
      by blast
    from h(1) have "h \<in> set (ranked_hits fl store q)"
      by (rule in_set_takeD)
    from ranked_hits_rows [OF this] obtain row
      where "row \<in> set (store_rows store)" "h = row_to_hit fl store q row"
      by blast
    with h(2,3) show ?thesis
      by (intro bexI [of _ row]) (simp_all add: hit_to_dict_def row_to_hit_def)
  qed
  from len desc rows show ?thesis
    by blast
qed


lemmas demo_eval =
  similarity_search_def mmr_search_def execute_select_def sql_select_def bind_select_def
  truthy_filter_def where_matches_def demo_store_def demo_table_def cosine_distance_def dot_def
  row_to_hit_def hit_to_dict_def hit_to_chunk_def py_slice_to_def py_max_def mmr_score_def
  max_sim_to_selected_def length_similarity_def grid_round_def

theorem similarity_search_result_witness:
  "(case similarity_search grid_round demo_store [1, 0] 2 None of
      Inl e \<Rightarrow> False
    | Inr res \<Rightarrow>
        map (chunk_id \<circ> fst) res = [''1'', ''2''] \<and> map snd res = [1, 0]
        \<and> int (length res) \<le> 2 \<and> descending res)"
proof -
  obtain res where eq: "similarity_search grid_round demo_store [1, 0] 2 None = Inr res"
    and ids: "map (chunk_id \<circ> fst) res = [''1'', ''2'']" "map snd res = [1, 0]"
    by (simp add: demo_eval)
  note r = similarity_search_result [OF grid_round_rounding eq]
  have "int (length res) \<le> 2"
    by (rule r [THEN conjunct1])
  moreover have "descending res"
    by (rule r [THEN conjunct2, THEN conjunct1])
  ultimately show ?thesis
    by (simp add: eq ids)
qed

text \<open>
  The claim as stated (strictly descending scores) fails on the example store: its second
  and third row have the same embedding, so both get the score \<open>0\<close>.
\<close>

theorem similarity_search_ties_counterexample:
  "similarity_search grid_round demo_store [1, 0] 3 None
     = Inr [(\<lparr>chunk_id = ''1'', chunk_content = ''Machine learning'',
              chunk_metadata = [(''filename'', JStr ''a.pdf''), (''chunk_index'', JNum 0)],
              chunk_similarity = Some 1\<rparr>, 1),
            (\<lparr>chunk_id = ''2'', chunk_content = ''Neural networks.'',
              chunk_metadata = [(''filename'', JStr ''a.pdf''), (''chunk_index'', JNum 1)],
              chunk_similarity = Some 0\<rparr>, 0),
            (\<lparr>chunk_id = ''3'', chunk_content = replicate 116 (CHR ''x''),
              chunk_metadata = [(''filename'', JStr ''b.pdf''), (''chunk_index'', JNum 0)],
              chunk_similarity = Some 0\<rparr>, 0)]
   \<and> \<not> strictly_descending
         [(\<lparr>chunk_id = ''1'', chunk_content = ''Machine learning'',
             chunk_metadata = [(''filename'', JStr ''a.pdf''), (''chunk_index'', JNum 0)],
             chunk_similarity = Some 1\<rparr>, 1 :: real),
          (\<lparr>chunk_id = ''2'', chunk_content = ''Neural networks.'',
             chunk_metadata = [(''filename'', JStr ''a.pdf''), (''chunk_index'', JNum 1)],
             chunk_similarity = Some 0\<rparr>, 0),
          (\<lparr>chunk_id = ''3'', chunk_content = replicate 116 (CHR ''x''),
             chunk_metadata = [(''filename'', JStr ''b.pdf''), (''chunk_index'', JNum 0)],
             chunk_similarity = Some 0\<rparr>, 0)]"
proof -
  have "similarity_search grid_round demo_store [1, 0] 3 None
     = Inr [(\<lparr>chunk_id = ''1'', chunk_content = ''Machine learning'',
              chunk_metadata = [(''filename'', JStr ''a.pdf''), (''chunk_index'', JNum 0)],
              chunk_similarity = Some 1\<rparr>, 1),
            (\<lparr>chunk_id = ''2'', chunk_content = ''Neural networks.'',
              chunk_metadata = [(''filename'', JStr ''a.pdf''), (''chunk_index'', JNum 1)],
              chunk_similarity = Some 0\<rparr>, 0),
            (\<lparr>chunk_id = ''3'', chunk_content = replicate 116 (CHR ''x''),
              chunk_metadata = [(''filename'', JStr ''b.pdf''), (''chunk_index'', JNum 0)],
              chunk_similarity = Some 0\<rparr>, 0)]"
    by (simp add: demo_eval)
  moreover have "\<not> strictly_descending
         [(\<lparr>chunk_id = ''1'', chunk_content = ''Machine learning'',
             chunk_metadata = [(''filename'', JStr ''a.pdf''), (''chunk_index'', JNum 0)],
             chunk_similarity = Some 1\<rparr>, 1 :: real),
          (\<lparr>chunk_id = ''2'', chunk_content = ''Neural networks.'',
             chunk_metadata = [(''filename'', JStr ''a.pdf''), (''chunk_index'', JNum 1)],
             chunk_similarity = Some 0\<rparr>, 0),
          (\<lparr>chunk_id = ''3'', chunk_content = replicate 116 (CHR ''x''),
             chunk_metadata = [(''filename'', JStr ''b.pdf''), (''chunk_index'', JNum 0)],
             chunk_similarity = Some 0\<rparr>, 0)]"
    by (simp add: strictly_descending_def)
  ultimately show ?thesis
    by (rule conjI)
qed

section \<open>Reranker\<close>

lemma py_slice_to_nonneg: "0 \<le> k \<Longrightarrow> py_slice_to k xs = take (nat k) xs"
  by (simp add: py_slice_to_def)

lemma py_slice_to_take: "\<exists>n. py_slice_to k xs = take n xs"
  by (auto simp: py_slice_to_def)

lemma rerank_unfold:
  "rerank predict query_text documents top_k =
     py_slice_to top_k
       (sort_key (\<lambda>x. - snd x)
          (zip (map fst documents)
             (predict (map (\<lambda>c. (query_text, chunk_content c)) (map fst documents)))))"
proof (cases "documents = []")
  case True
  then show ?thesis
    by (simp add: rerank_def py_slice_to_def)
next
  case False
  have "map (\<lambda>(doc, score). (fst doc, score)) (zip documents scores)
          = zip (map fst documents) scores" for scores :: "real list"
    by (simp add: zip_map1 case_prod_beta)
  with False show ?thesis
    by (simp add: rerank_def Let_def comp_def)
qed

lemma sort_desc_sorted: "sorted_wrt (\<lambda>a b. snd b \<le> snd a) (sort_key (\<lambda>x. - snd x) (xs :: ('a \<times> real) list))"
proof -
  have "sorted (map (\<lambda>x. - snd x) (sort_key (\<lambda>x. - snd x) xs))"
    by (rule sorted_sort_key)
  then show ?thesis
    by (simp add: sorted_map)
qed

lemma rerank_descending: "descending (rerank predict query_text documents top_k)"
proof -
  obtain n where "rerank predict query_text documents top_k =
      take n (sort_key (\<lambda>x. - snd x) (zip (map fst documents)
             (predict (map (\<lambda>c. (query_text, chunk_content c)) (map fst documents)))))"
    unfolding rerank_unfold using py_slice_to_take by blast
  then show ?thesis
    by (simp add: descending_def sorted_wrt_take sort_desc_sorted)
qed

lemma rerank_subset:
  "set (rerank predict query_text documents top_k)
     \<subseteq> set (zip (map fst documents)
              (predict (map (\<lambda>doc. (query_text, chunk_content (fst doc))) documents)))"
proof -
  let ?scored = "zip (map fst documents)
             (predict (map (\<lambda>c. (query_text, chunk_content c)) (map fst documents)))"
  obtain n where n: "rerank predict query_text documents top_k =
      take n (sort_key (\<lambda>x. - snd x) ?scored)"
    unfolding rerank_unfold using py_slice_to_take by blast
  have "set (take n (sort_key (\<lambda>x. - snd x) ?scored)) \<subseteq> set (sort_key (\<lambda>x. - snd x) ?scored)"
    by (rule set_take_subset)
  also have "\<dots> = set ?scored"
    by (rule set_sort)
  finally have "set (rerank predict query_text documents top_k) \<subseteq> set ?scored"
    by (simp only: n)
  moreover have "map (\<lambda>c. (query_text, chunk_content c)) (map fst documents)
      = map (\<lambda>doc. (query_text, chunk_content (fst doc))) documents"
    by (simp add: comp_def)
  ultimately show ?thesis
    by (simp only:)
qed

lemma rerank_length:
  assumes "0 \<le> top_k"
    and "length (predict (map (\<lambda>doc. (query_text, chunk_content (fst doc))) documents))
           = length documents"
  shows "int (length (rerank predict query_text documents top_k)) = min top_k (int (length documents))"
proof -
  have "length (rerank predict query_text documents top_k) = min (nat top_k) (length documents)"
    using assms by (simp add: rerank_unfold py_slice_to_nonneg comp_def)
  with assms(1) show ?thesis by linarith
qed

lemma rerank_ignores_scores:
  "map fst documents' = map fst documents \<Longrightarrow>
     rerank predict query_text documents' top_k = rerank predict query_text documents top_k"
  by (simp add: rerank_unfold)

lemma rerank_full:
  "rerank predict query_text documents (int (length documents))
     = sort_key (\<lambda>x. - snd x)
         (zip (map fst documents)
            (predict (map (\<lambda>doc. (query_text, chunk_content (fst doc))) documents)))"
proof -
  let ?scored = "zip (map fst documents)
      (predict (map (\<lambda>c. (query_text, chunk_content c)) (map fst documents)))"
  have "length (sort_key (\<lambda>x. - snd x) ?scored) \<le> length documents"
    by simp
  then have "take (length documents) (sort_key (\<lambda>x. - snd x) ?scored)
      = sort_key (\<lambda>x. - snd x) ?scored"
    by (rule take_all)
  then show ?thesis
    by (simp add: rerank_unfold py_slice_to_nonneg comp_def)
qed

lemma rerank_prefix:
  "rerank predict query_text documents top_k
     = py_slice_to top_k (rerank predict query_text documents (int (length documents)))"
  unfolding rerank_full by (simp add: rerank_unfold comp_def)

lemma rerank_full_mset:
  "mset (rerank predict query_text documents (int (length documents)))
     = mset (zip (map fst documents)
              (predict (map (\<lambda>doc. (query_text, chunk_content (fst doc))) documents)))"
  unfolding rerank_full by (rule mset_sort)

lemma rerank_full_stable:
  "filter (\<lambda>x. snd x = v) (rerank predict query_text documents (int (length documents)))
     = filter (\<lambda>x. snd x = v)
         (zip (map fst documents)
            (predict (map (\<lambda>doc. (query_text, chunk_content (fst doc))) documents)))"
proof -
  have "filter (\<lambda>x. - snd x = - v) (sort_key (\<lambda>x. - snd x) xs)
      = filter (\<lambda>x. - snd x = - v) xs" for xs :: "(chunk \<times> real) list"
    by (rule sort_key_stable)
  then show ?thesis
    unfolding rerank_full by simp
qed

text \<open>
  Claim C3, as amended. \<open>rerank\<close> returns the empty list on empty input. Otherwise, for
  \<open>top_k \<ge> 0\<close> and a model that returns one score per pair, it returns exactly
  \<open>min(top_k, |candidates|)\<close> scored chunks. The output is ordered by descending new score,
  not strictly. Every output element pairs a candidate's chunk with a score the model gave
  for the pairs \<open>(query, candidate.content)\<close>, and the input scores have no influence on
  the output. The output is the slice \<open>[:top_k]\<close> of the full ranking (the output for
  \<open>top_k = |candidates|\<close>), and the full ranking holds exactly the scored candidates,
  those with equal new scores in their input order.
\<close>

theorem rerank_result:
  "rerank predict query_text [] top_k = []
   \<and> (0 \<le> top_k
        \<and> length (predict (map (\<lambda>doc. (query_text, chunk_content (fst doc))) documents))
            = length documents
      \<longrightarrow> int (length (rerank predict query_text documents top_k))
            = min top_k (int (length documents)))
   \<and> descending (rerank predict query_text documents top_k)
   \<and> set (rerank predict query_text documents top_k)
       \<subseteq> set (zip (map fst documents)
                (predict (map (\<lambda>doc. (query_text, chunk_content (fst doc))) documents)))
   \<and> (\<forall>documents'. map fst documents' = map fst documents
        \<longrightarrow> rerank predict query_text documents' top_k = rerank predict query_text documents top_k)
   \<and> rerank predict query_text documents top_k
       = py_slice_to top_k (rerank predict query_text documents (int (length documents)))
   \<and> mset (rerank predict query_text documents (int (length documents)))
       = mset (zip (map fst documents)
                (predict (map (\<lambda>doc. (query_text, chunk_content (fst doc))) documents)))
   \<and> (\<forall>v. filter (\<lambda>x. snd x = v)
              (rerank predict query_text documents (int (length documents)))
            = filter (\<lambda>x. snd x = v)
                (zip (map fst documents)
                   (predict (map (\<lambda>doc. (query_text, chunk_content (fst doc))) documents))))"
proof (intro conjI allI impI)
  show "rerank predict query_text [] top_k = []"
    by (simp add: rerank_def)
  show "int (length (rerank predict query_text documents top_k)) = min top_k (int (length documents))"
    if "0 \<le> top_k
        \<and> length (predict (map (\<lambda>doc. (query_text, chunk_content (fst doc))) documents))
            = length documents"
    using that rerank_length by blast
  show "descending (rerank predict query_text documents top_k)"
    by (rule rerank_descending)
  show "set (rerank predict query_text documents top_k)
       \<subseteq> set (zip (map fst documents)
                (predict (map (\<lambda>doc. (query_text, chunk_content (fst doc))) documents)))"
    by (rule rerank_subset)
  show "rerank predict query_text documents' top_k = rerank predict query_text documents top_k"
    if "map fst documents' = map fst documents" for documents'
    using that by (rule rerank_ignores_scores)
  show "rerank predict query_text documents top_k
       = py_slice_to top_k (rerank predict query_text documents (int (length documents)))"
    by (rule rerank_prefix)
  show "mset (rerank predict query_text documents (int (length documents)))
       = mset (zip (map fst documents)
                (predict (map (\<lambda>doc. (query_text, chunk_content (fst doc))) documents)))"
    by (rule rerank_full_mset)
  show "filter (\<lambda>x. snd x = v) (rerank predict query_text documents (int (length documents)))
     = filter (\<lambda>x. snd x = v)
         (zip (map fst documents)
            (predict (map (\<lambda>doc. (query_text, chunk_content (fst doc))) documents)))" for v
    by (rule rerank_full_stable)
qed

theorem rerank_result_witness:
  "rerank length_scorer ''q''
     [(demo_chunk ''1'' ''ab'', 9 / 10), (demo_chunk ''2'' ''abcd'', 1 / 2),
      (demo_chunk ''3'' ''abc'', 1 / 10), (demo_chunk ''4'' ''xyz'', 0)] 3
     = [(demo_chunk ''2'' ''abcd'', 4), (demo_chunk ''3'' ''abc'', 3), (demo_chunk ''4'' ''xyz'', 3)]
   \<and> int (length (rerank length_scorer ''q''
        [(demo_chunk ''1'' ''ab'', 9 / 10), (demo_chunk ''2'' ''abcd'', 1 / 2),
         (demo_chunk ''3'' ''abc'', 1 / 10), (demo_chunk ''4'' ''xyz'', 0)] 3)) = 3
   \<and> descending (rerank length_scorer ''q''
        [(demo_chunk ''1'' ''ab'', 9 / 10), (demo_chunk ''2'' ''abcd'', 1 / 2),
         (demo_chunk ''3'' ''abc'', 1 / 10), (demo_chunk ''4'' ''xyz'', 0)] 3)
   \<and> rerank length_scorer ''q''
        [(demo_chunk ''1'' ''ab'', 0), (demo_chunk ''2'' ''abcd'', 0), (demo_chunk ''3'' ''abc'', 0),
         (demo_chunk ''4'' ''xyz'', 0)] 3
      = rerank length_scorer ''q''
        [(demo_chunk ''1'' ''ab'', 9 / 10), (demo_chunk ''2'' ''abcd'', 1 / 2),
         (demo_chunk ''3'' ''abc'', 1 / 10), (demo_chunk ''4'' ''xyz'', 0)] 3
   \<and> filter (\<lambda>x. snd x = 3) (rerank length_scorer ''q''
        [(demo_chunk ''1'' ''ab'', 9 / 10), (demo_chunk ''2'' ''abcd'', 1 / 2),
         (demo_chunk ''3'' ''abc'', 1 / 10), (demo_chunk ''4'' ''xyz'', 0)] 4)
      = [(demo_chunk ''3'' ''abc'', 3), (demo_chunk ''4'' ''xyz'', 3)]"
proof -
  let ?docs = "[(demo_chunk ''1'' ''ab'', 9 / 10 :: real), (demo_chunk ''2'' ''abcd'', 1 / 2),
      (demo_chunk ''3'' ''abc'', 1 / 10), (demo_chunk ''4'' ''xyz'', 0)]"
  let ?unscored = "[(demo_chunk ''1'' ''ab'', 0 :: real), (demo_chunk ''2'' ''abcd'', 0),
      (demo_chunk ''3'' ''abc'', 0), (demo_chunk ''4'' ''xyz'', 0)]"
  have ev: "rerank length_scorer ''q'' ?docs 3
      = [(demo_chunk ''2'' ''abcd'', 4), (demo_chunk ''3'' ''abc'', 3), (demo_chunk ''4'' ''xyz'', 3)]"
    by (simp add: rerank_def length_scorer_def demo_chunk_def py_slice_to_def)
  note r = rerank_result [of length_scorer "''q''" 3 ?docs]
  have "int (length (rerank length_scorer ''q'' ?docs 3)) = min 3 (int (length ?docs))"
    by (rule r [THEN conjunct2, THEN conjunct1, THEN mp]) (simp add: length_scorer_def)
  then have a: "int (length (rerank length_scorer ''q'' ?docs 3)) = 3"
    by simp
  have b: "descending (rerank length_scorer ''q'' ?docs 3)"
    by (rule r [THEN conjunct2, THEN conjunct2, THEN conjunct1])
  have c: "rerank length_scorer ''q'' ?unscored 3 = rerank length_scorer ''q'' ?docs 3"
    by (rule r [THEN conjunct2, THEN conjunct2, THEN conjunct2, THEN conjunct2, THEN conjunct1,
          THEN spec, THEN mp]) simp
  have "filter (\<lambda>x. snd x = 3) (rerank length_scorer ''q'' ?docs (int (length ?docs)))
      = filter (\<lambda>x. snd x = 3)
          (zip (map fst ?docs) (length_scorer (map (\<lambda>doc. (''q'', chunk_content (fst doc))) ?docs)))"
    by (rule r [THEN conjunct2, THEN conjunct2, THEN conjunct2, THEN conjunct2, THEN conjunct2,
          THEN conjunct2, THEN conjunct2, THEN spec])
  then have d: "filter (\<lambda>x. snd x = 3) (rerank length_scorer ''q'' ?docs 4)
      = [(demo_chunk ''3'' ''abc'', 3), (demo_chunk ''4'' ''xyz'', 3)]"
    by (simp add: length_scorer_def demo_chunk_def)
  show ?thesis
    by (intro conjI) (rule ev a b c d)+
qed

text \<open>
  The claim as stated (strictly descending new scores) fails when two candidates get the
  same score, as two chunks with the same content do.
\<close>

theorem rerank_ties_counterexample:
  "rerank length_scorer ''q'' [(demo_chunk ''1'' ''ab'', 1), (demo_chunk ''2'' ''ab'', 1)] 2
     = [(demo_chunk ''1'' ''ab'', 2), (demo_chunk ''2'' ''ab'', 2)]
   \<and> \<not> strictly_descending
         (rerank length_scorer ''q'' [(demo_chunk ''1'' ''ab'', 1), (demo_chunk ''2'' ''ab'', 1)] 2)"
  by (simp add: rerank_def length_scorer_def demo_chunk_def py_slice_to_def
      strictly_descending_def)

section \<open>Vector store: MMR search\<close>

subsection \<open>The score and the choice of the best candidate\<close>

lemma fold_max_eq_Max:
  fixes f :: "'a \<Rightarrow> real"
  shows "fold (\<lambda>x m. max m (f x)) xs a = Max (insert a (f ` set xs))"
proof (induction xs arbitrary: a)
  case Nil
  show ?case by simp
next
  case (Cons x xs)
  have "fold (\<lambda>x m. max m (f x)) (x # xs) a = Max (insert (max a (f x)) (f ` set xs))"
    by (simp add: Cons.IH)
  also have "\<dots> = Max (insert a (insert (f x) (f ` set xs)))"
  proof (cases "xs = []")
    case True
    then show ?thesis by (simp add: max.commute)
  next
    case False
    then have ne: "f ` set xs \<noteq> {}" by simp
    have fin: "finite (f ` set xs)" by simp
    show ?thesis
      by (simp add: Max_insert [OF fin ne] max.assoc)
  qed
  finally show ?case by simp
qed

lemma length_similarity_nonneg:
  assumes "float_rounding fl"
  shows "0 \<le> length_similarity fl candidate sel"
proof -
  let ?d = "real_of_int \<bar>int (length (hit_content candidate)) - int (length (hit_content sel))\<bar>"
  have "0 \<le> fl (?d / 100)"
    by (rule float_rounding_nonneg [OF assms]) simp
  then have "0 \<le> fl (1 + fl (?d / 100))"
    by (intro float_rounding_nonneg [OF assms]) simp
  then have "0 \<le> fl (1 / fl (1 + fl (?d / 100)))"
    by (intro float_rounding_nonneg [OF assms]) simp
  then show ?thesis
    by (simp add: length_similarity_def Let_def)
qed

lemma max_sim_to_selected_eq_Max:
  assumes "float_rounding fl" and "selected \<noteq> []"
  shows "max_sim_to_selected fl selected candidate
           = Max (length_similarity fl candidate ` set selected)"
proof -
  let ?A = "length_similarity fl candidate ` set selected"
  have fin: "finite ?A" and ne: "?A \<noteq> {}"
    using assms(2) by simp_all
  obtain s where s: "s \<in> set selected"
    using assms(2) by (cases selected) auto
  then have "length_similarity fl candidate s \<le> Max ?A"
    by simp
  with length_similarity_nonneg [OF assms(1), of candidate s] have "0 \<le> Max ?A"
    by linarith
  then have "Max (insert 0 ?A) = Max ?A"
    by (simp add: Max_insert [OF fin ne])
  then show ?thesis
    by (simp add: max_sim_to_selected_def fold_max_eq_Max)
qed

lemma mmr_score_eq_greedy:
  assumes "float_rounding fl" and "selected \<noteq> []"
  shows "mmr_score fl lambda_mult selected candidate
           = greedy_mmr_score fl lambda_mult selected candidate"
proof -
  have "length_similarity fl candidate
      = (\<lambda>sel. fl (1 / fl (1 + fl (real_of_int
                                \<bar>int (length (hit_content candidate))
                                 - int (length (hit_content sel))\<bar> / 100))))"
    by (rule ext) (simp add: length_similarity_def Let_def)
  then show ?thesis
    by (simp add: mmr_score_def greedy_mmr_score_def max_sim_to_selected_eq_Max [OF assms])
qed

lemma fold_first_max_split:
  fixes key :: "'a \<Rightarrow> real"
  shows "\<exists>ps ss. x # rest = ps @ fold (\<lambda>y best. if key best < key y then y else best) rest x # ss
           \<and> (\<forall>y\<in>set ps. key y < key (fold (\<lambda>y best. if key best < key y then y else best) rest x))
           \<and> (\<forall>y\<in>set ss. key y \<le> key (fold (\<lambda>y best. if key best < key y then y else best) rest x))"
proof (induction rest arbitrary: x)
  case Nil
  show ?case by (intro exI [of _ "[]"]) simp
next
  case (Cons y ys)
  let ?g = "\<lambda>y best. if key best < key y then y else best"
  show ?case
  proof (cases "key x < key y")
    case True
    then have f: "fold ?g (y # ys) x = fold ?g ys y"
      by simp
    from Cons.IH [of y] obtain ps ss where ps: "y # ys = ps @ fold ?g ys y # ss"
      and lt: "\<forall>z\<in>set ps. key z < key (fold ?g ys y)"
      and le: "\<forall>z\<in>set ss. key z \<le> key (fold ?g ys y)"
      by blast
    have "key x < key (fold ?g ys y)"
    proof (cases ps)
      case Nil
      from ps have "y # ys = fold ?g ys y # ss" unfolding Nil append_Nil .
      then have "y = fold ?g ys y" by (rule list.inject [THEN iffD1, THEN conjunct1])
      with True show ?thesis by simp
    next
      case (Cons p ps')
      from ps have "y # ys = p # (ps' @ fold ?g ys y # ss)" unfolding Cons append_Cons .
      then have "y = p \<and> ys = ps' @ fold ?g ys y # ss" by (rule list.inject [THEN iffD1])
      then have "p = y" by metis
      with Cons lt have "key y < key (fold ?g ys y)" by simp
      with True show ?thesis by linarith
    qed
    with lt have "\<forall>z\<in>set (x # ps). key z < key (fold ?g ys y)"
      by simp
    moreover from ps have "x # y # ys = (x # ps) @ fold ?g ys y # ss"
      by simp
    ultimately show ?thesis
      unfolding f using le by blast
  next
    case False
    then have f: "fold ?g (y # ys) x = fold ?g ys x"
      by simp
    from Cons.IH [of x] obtain ps ss where ps: "x # ys = ps @ fold ?g ys x # ss"
      and lt: "\<forall>z\<in>set ps. key z < key (fold ?g ys x)"
      and le: "\<forall>z\<in>set ss. key z \<le> key (fold ?g ys x)"
      by blast
    show ?thesis
    proof (cases ps)
      case Nil
      from ps have "x # ys = fold ?g ys x # ss" unfolding Nil append_Nil .
      then have "x = fold ?g ys x \<and> ys = ss" by (rule list.inject [THEN iffD1])
      then have b: "fold ?g ys x = x" and ss: "ss = ys" by metis+
      from le False have "\<forall>z\<in>set (y # ys). key z \<le> key x"
        unfolding b ss by simp
      moreover have "x # y # ys = [] @ x # (y # ys)"
        by simp
      ultimately show ?thesis
        unfolding f b by (intro exI [of _ "[]"] exI [of _ "y # ys"]) simp
    next
      case (Cons p ps')
      from ps have "x # ys = p # (ps' @ fold ?g ys x # ss)" unfolding Cons append_Cons .
      then have "x = p \<and> ys = ps' @ fold ?g ys x # ss" by (rule list.inject [THEN iffD1])
      then have p: "p = x" and ys: "ys = ps' @ fold ?g ys x # ss" by metis+
      from Cons lt p have "key x < key (fold ?g ys x)" by simp
      with False have "key y < key (fold ?g ys x)" by linarith
      with lt Cons p have "\<forall>z\<in>set (x # y # ps'). key z < key (fold ?g ys x)"
        by simp
      moreover from ys have "x # y # ys = (x # y # ps') @ fold ?g ys x # ss"
        by simp
      ultimately show ?thesis
        unfolding f using le by blast
    qed
  qed
qed

lemma first_best_split:
  fixes f :: "'a \<Rightarrow> real"
  assumes "xs = ps @ b # ss" and "\<forall>y\<in>set ps. f y < f b" and "\<forall>y\<in>set ss. f y \<le> f b"
  shows "first_best f xs = b"
proof -
  let ?P = "\<lambda>c. \<forall>c'\<in>set xs. f c' \<le> f c"
  have b: "?P b"
    using assms by (auto simp: less_imp_le)
  have "\<not> ?P y" if "y \<in> set ps" for y
  proof
    assume "?P y"
    moreover have "b \<in> set xs" using assms(1) by simp
    ultimately have "f b \<le> f y" by blast
    with assms(2) that show False by fastforce
  qed
  then have "filter ?P ps = []"
    by (simp add: filter_empty_conv)
  with b have "filter ?P xs = b # filter ?P ss"
    by (simp add: assms(1))
  then show ?thesis
    by (simp add: first_best_def)
qed

lemma fold_first_best:
  fixes key :: "'a \<Rightarrow> real"
  shows "fold (\<lambda>y best. if key best < key y then y else best) rest x = first_best key (x # rest)"
proof -
  from fold_first_max_split [of x rest key] obtain ps ss
    where "x # rest = ps @ fold (\<lambda>y best. if key best < key y then y else best) rest x # ss"
      and "\<forall>y\<in>set ps. key y < key (fold (\<lambda>y best. if key best < key y then y else best) rest x)"
      and "\<forall>y\<in>set ss. key y \<le> key (fold (\<lambda>y best. if key best < key y then y else best) rest x)"
    by blast
  then show ?thesis
    by (rule first_best_split [symmetric])
qed

lemma greedy_best_first_best:
  "greedy_best fl lambda_mult selected remaining
     = first_best (greedy_mmr_score fl lambda_mult selected) remaining"
  by (simp add: greedy_best_def first_best_def)

lemma fold_scored:
  fixes f :: "'a \<Rightarrow> real"
  shows "fold (\<lambda>y best. if snd best < snd y then y else best) (map (\<lambda>c. (c, f c)) ys) (x, f x)
           = (\<lambda>c. (c, f c)) (fold (\<lambda>y best. if f best < f y then y else best) ys x)"
  by (induction ys arbitrary: x) simp_all

lemma py_max_scored:
  fixes f :: "'a \<Rightarrow> real"
  assumes "xs \<noteq> []"
  shows "py_max snd (map (\<lambda>c. (c, f c)) xs) = Inr (first_best f xs, f (first_best f xs))"
proof -
  from assms obtain x rest where xs: "xs = x # rest"
    by (cases xs) auto
  have "py_max snd (map (\<lambda>c. (c, f c)) (x # rest))
      = Inr (fold (\<lambda>y best. if snd best < snd y then y else best)
               (map (\<lambda>c. (c, f c)) rest) (x, f x))"
    by (simp add: py_max_def)
  also have "\<dots> = Inr ((\<lambda>c. (c, f c)) (fold (\<lambda>y best. if f best < f y then y else best) rest x))"
    by (simp only: fold_scored)
  also have "\<dots> = Inr (first_best f (x # rest), f (first_best f (x # rest)))"
    by (simp only: fold_first_best)
  finally show ?thesis
    unfolding xs .
qed

lemma first_best_mem:
  fixes f :: "'a \<Rightarrow> real"
  shows "xs \<noteq> [] \<Longrightarrow> first_best f xs \<in> set xs"
  unfolding first_best_def by (rule first_maximal_mem)

subsection \<open>The selection loop\<close>

text \<open>One turn of the \<open>while\<close> loop: \<open>max\<close> picks the first candidate of highest score.\<close>

lemma mmr_loop_step:
  "mmr_loop fl k lambda_mult selected remaining =
     (if int (length selected) < k \<and> remaining \<noteq> [] then
        mmr_loop fl k lambda_mult
          (selected @ [first_best (mmr_score fl lambda_mult selected) remaining])
          (remove1 (first_best (mmr_score fl lambda_mult selected) remaining) remaining)
      else Inr selected)"
proof (cases "remaining = []")
  case True
  show ?thesis
    by (subst mmr_loop.simps) (simp add: True)
next
  case False
  show ?thesis
    by (subst mmr_loop.simps) (simp add: False py_max_scored [OF False] Let_def)
qed

lemma remove1_shorter: "b \<in> set xs \<Longrightarrow> length (remove1 b xs) < length xs"
  by (simp add: length_remove1) (cases xs; simp)

text \<open>The loop computes the greedy selection of the specification.\<close>

lemma mmr_loop_greedy:
  assumes "float_rounding fl" and "selected \<noteq> []"
  shows "mmr_loop fl k lambda_mult selected remaining
           = Inr (greedy_select fl k lambda_mult selected remaining)"
  using assms(2)
proof (induction "length remaining" arbitrary: selected remaining rule: less_induct)
  case less
  show ?case
  proof (cases "int (length selected) < k \<and> remaining \<noteq> []")
    case True
    then have ne: "remaining \<noteq> []" by simp
    let ?b = "first_best (mmr_score fl lambda_mult selected) remaining"
    have score: "mmr_score fl lambda_mult selected = greedy_mmr_score fl lambda_mult selected"
      by (rule ext) (rule mmr_score_eq_greedy [OF assms(1) less.prems])
    have b: "greedy_best fl lambda_mult selected remaining = ?b"
      by (simp add: greedy_best_first_best score)
    have "length (remove1 ?b remaining) < length remaining"
      by (rule remove1_shorter) (rule first_best_mem [OF ne])
    then have "mmr_loop fl k lambda_mult (selected @ [?b]) (remove1 ?b remaining)
        = Inr (greedy_select fl k lambda_mult (selected @ [?b]) (remove1 ?b remaining))"
      by (rule less.hyps) simp
    moreover have "mmr_loop fl k lambda_mult selected remaining
        = mmr_loop fl k lambda_mult (selected @ [?b]) (remove1 ?b remaining)"
      by (subst mmr_loop_step) (simp add: True)
    moreover have "greedy_select fl k lambda_mult selected remaining
        = greedy_select fl k lambda_mult (selected @ [?b]) (remove1 ?b remaining)"
      by (subst greedy_select.simps) (simp add: True b Let_def)
    ultimately show ?thesis
      by simp
  next
    case False
    have "mmr_loop fl k lambda_mult selected remaining = Inr selected"
      by (subst mmr_loop_step) (simp add: False)
    moreover have "greedy_select fl k lambda_mult selected remaining = selected"
      by (subst greedy_select.simps) (simp add: False)
    ultimately show ?thesis
      by simp
  qed
qed

text \<open>
  The loop always returns: the selection it was given, followed by candidates taken from
  \<open>remaining\<close>, each at most as often as it occurs there, until \<open>k\<close> items are selected
  or none is left.
\<close>

lemma mmr_loop_extends:
  "\<exists>extra. mmr_loop fl k lambda_mult selected remaining = Inr (selected @ extra)
     \<and> mset extra \<subseteq># mset remaining
     \<and> length extra = min (nat k - length selected) (length remaining)"
proof (induction "length remaining" arbitrary: selected remaining rule: less_induct)
  case less
  show ?case
  proof (cases "int (length selected) < k \<and> remaining \<noteq> []")
    case True
    then have ne: "remaining \<noteq> []" by simp
    from True have lt: "length selected < nat k" by linarith
    let ?b = "first_best (mmr_score fl lambda_mult selected) remaining"
    have mem: "?b \<in> set remaining"
      by (rule first_best_mem [OF ne])
    then have "length (remove1 ?b remaining) < length remaining"
      by (rule remove1_shorter)
    from less.hyps [OF this, of "selected @ [?b]"]
    obtain extra where run: "mmr_loop fl k lambda_mult (selected @ [?b]) (remove1 ?b remaining)
          = Inr ((selected @ [?b]) @ extra)"
      and sub: "mset extra \<subseteq># mset (remove1 ?b remaining)"
      and len: "length extra = min (nat k - length (selected @ [?b])) (length (remove1 ?b remaining))"
      by blast
    have "mmr_loop fl k lambda_mult selected remaining
        = mmr_loop fl k lambda_mult (selected @ [?b]) (remove1 ?b remaining)"
      by (subst mmr_loop_step) (simp add: True)
    with run have "mmr_loop fl k lambda_mult selected remaining = Inr (selected @ (?b # extra))"
      by simp
    moreover have "mset (?b # extra) \<subseteq># mset remaining"
      using sub mem by (simp add: insert_subset_eq_iff)
    moreover have "length (?b # extra) = min (nat k - length selected) (length remaining)"
      using len lt mem ne by (simp add: length_remove1) (cases remaining; simp; linarith)
    ultimately show ?thesis
      by blast
  next
    case False
    have "mmr_loop fl k lambda_mult selected remaining = Inr (selected @ [])"
      by (subst mmr_loop_step) (simp add: False)
    moreover from False have "length ([] :: hit list) = min (nat k - length selected) (length remaining)"
      by auto
    ultimately show ?thesis
      by (metis empty_le mset.simps(1))
  qed
qed

subsection \<open>What an MMR search returns\<close>

lemma mset_take_subseteq: "mset (take n xs) \<subseteq># mset xs"
proof -
  have "mset xs = mset (take n xs) + mset (drop n xs)"
    by (metis append_take_drop_id mset_append)
  then show ?thesis
    by simp
qed

lemma distinct_mset_subseteq:
  assumes "mset xs \<subseteq># mset ys" and "distinct ys"
  shows "distinct xs"
proof -
  have "count (mset xs) a \<le> 1" for a
  proof -
    from assms(1) have "count (mset xs) a \<le> count (mset ys) a"
      by (rule mset_subset_eq_count)
    also from assms(2) have "\<dots> \<le> 1"
      by (simp add: distinct_count_atmost_1)
    finally show ?thesis .
  qed
  then show ?thesis
    unfolding distinct_count_atmost_1
    by (metis count_mset_0_iff le_antisym not_less_eq_eq not_one_le_zero One_nat_def le_0_eq nat_le_linear)
qed

lemma py_slice_selected:
  assumes "length extra = min (nat k - 1) n"
  shows "py_slice_to k (first # extra) = (if 1 \<le> k then first # extra else [])"
proof (cases "1 \<le> k")
  case True
  with assms have "length (first # extra) \<le> nat k"
    by simp
  with True show ?thesis
    by (simp add: py_slice_to_def)
next
  case False
  with assms have "extra = []"
    by simp
  with False show ?thesis
    by (simp add: py_slice_to_def)
qed

lemma ranked_hits_distinct:
  assumes "distinct (map row_id (store_rows store))"
  shows "distinct (map hit_id (ranked_hits fl store q))"
proof -
  let ?key = "\<lambda>r. store_distance store (row_embedding r) q"
  have "map hit_id (ranked_hits fl store q) = map row_id (sort_key ?key (reached_rows store q))"
    by (simp add: ranked_hits_def row_to_hit_def comp_def)
  moreover have "mset (map row_id (sort_key ?key (reached_rows store q)))
      = mset (map row_id (reached_rows store q))"
    by simp
  moreover have "distinct (map row_id (reached_rows store q))"
    unfolding reached_rows_def by (rule distinct_map_filter [OF assms])
  ultimately show ?thesis
    by (metis mset_eq_imp_distinct_iff)
qed

lemma mmr_search_empty:
  assumes "execute_select fl store q fetch_k filter_metadata = Inr []"
  shows "mmr_search fl store q k lambda_mult fetch_k filter_metadata = Inr []"
  using assms by (simp add: mmr_search_def)

lemma mmr_search_nonempty:
  assumes "execute_select fl store q fetch_k filter_metadata = Inr (first # rest)"
  shows "\<exists>extra. mmr_loop fl k lambda_mult [first] rest = Inr (first # extra)
           \<and> mset extra \<subseteq># mset rest
           \<and> length extra = min (nat k - 1) (length rest)
           \<and> mmr_search fl store q k lambda_mult fetch_k filter_metadata
               = Inr (map (\<lambda>doc. (hit_to_chunk doc, hit_similarity doc))
                        (if 1 \<le> k then first # extra else []))"
proof -
  from mmr_loop_extends [of fl k lambda_mult "[first]" rest]
  obtain extra where run: "mmr_loop fl k lambda_mult [first] rest = Inr (first # extra)"
    and sub: "mset extra \<subseteq># mset rest"
    and len: "length extra = min (nat k - 1) (length rest)"
    by auto
  have "mmr_search fl store q k lambda_mult fetch_k filter_metadata
      = Inr (map (\<lambda>doc. (hit_to_chunk doc, hit_similarity doc)) (py_slice_to k (first # extra)))"
    by (simp add: mmr_search_def assms run)
  with run sub len show ?thesis
    unfolding py_slice_selected [OF len] by blast
qed

text \<open>What a returning MMR search returns: hits of the ranking, each at most once.\<close>

lemma mmr_search_Inr:
  assumes "mmr_search fl store q k lambda_mult fetch_k filter_metadata = Inr res"
  shows "truthy_filter filter_metadata = None" and "0 \<le> fetch_k"
    and "\<exists>sel. mset sel \<subseteq># mset (ranked_hits fl store q)
           \<and> res = map (\<lambda>doc. (hit_to_chunk doc, hit_similarity doc)) sel"
    and "int (length res)
           = max 0 (min k (min fetch_k (int (length (reached_rows store q)))))"
proof -
  from assms obtain cands where sel: "execute_select fl store q fetch_k filter_metadata = Inr cands"
    by (cases "execute_select fl store q fetch_k filter_metadata") (simp_all add: mmr_search_def)
  note e = execute_select_Inr [OF sel]
  show "truthy_filter filter_metadata = None" and "0 \<le> fetch_k"
    by (rule e)+
  have cands_sub: "mset cands \<subseteq># mset (ranked_hits fl store q)"
    unfolding e(3) by (rule mset_take_subseteq)
  have cands_len: "int (length cands) = min fetch_k (int (length (reached_rows store q)))"
    using e(2) by (simp add: e(3) length_ranked_hits)
  show "\<exists>sel. mset sel \<subseteq># mset (ranked_hits fl store q)
           \<and> res = map (\<lambda>doc. (hit_to_chunk doc, hit_similarity doc)) sel"
    and "int (length res)
           = max 0 (min k (min fetch_k (int (length (reached_rows store q)))))"
  proof (atomize (full), cases cands)
    case Nil
    with sel assms have "res = []"
      by (simp add: mmr_search_empty)
    moreover from Nil cands_len have "min fetch_k (int (length (reached_rows store q))) = 0"
      by simp
    ultimately show "(\<exists>sel. mset sel \<subseteq># mset (ranked_hits fl store q)
           \<and> res = map (\<lambda>doc. (hit_to_chunk doc, hit_similarity doc)) sel)
        \<and> int (length res)
           = max 0 (min k (min fetch_k (int (length (reached_rows store q)))))"
      by simp
  next
    case (Cons first rest)
    from mmr_search_nonempty [OF sel [unfolded Cons], of k lambda_mult] assms
    obtain extra where sub: "mset extra \<subseteq># mset rest"
      and len: "length extra = min (nat k - 1) (length rest)"
      and res: "res = map (\<lambda>doc. (hit_to_chunk doc, hit_similarity doc))
                        (if 1 \<le> k then first # extra else [])"
      by auto
    let ?sel = "if 1 \<le> k then first # extra else []"
    from sub have "mset (first # extra) \<subseteq># mset cands"
      by (simp add: Cons)
    then have "mset ?sel \<subseteq># mset cands"
      by simp
    then have "mset ?sel \<subseteq># mset (ranked_hits fl store q)"
      using cands_sub by (rule subset_mset.order_trans)
    moreover have "int (length res)
           = max 0 (min k (min fetch_k (int (length (reached_rows store q)))))"
      using len cands_len by (simp add: res Cons) linarith
    ultimately show "(\<exists>sel. mset sel \<subseteq># mset (ranked_hits fl store q)
           \<and> res = map (\<lambda>doc. (hit_to_chunk doc, hit_similarity doc)) sel)
        \<and> int (length res)
           = max 0 (min k (min fetch_k (int (length (reached_rows store q)))))"
      using res by blast
  qed
qed

text \<open>The selection as the greedy selection of the specification.\<close>

lemma greedy_select_loop:
  assumes "float_rounding fl"
  shows "\<exists>extra. greedy_select fl k lambda_mult [first] rest = first # extra
           \<and> length extra = min (nat k - 1) (length rest)
           \<and> mmr_loop fl k lambda_mult [first] rest = Inr (first # extra)"
proof -
  from mmr_loop_extends [of fl k lambda_mult "[first]" rest]
  obtain extra where run: "mmr_loop fl k lambda_mult [first] rest = Inr (first # extra)"
    and len: "length extra = min (nat k - 1) (length rest)"
    by auto
  moreover have "mmr_loop fl k lambda_mult [first] rest
      = Inr (greedy_select fl k lambda_mult [first] rest)"
    by (rule mmr_loop_greedy [OF assms]) simp
  ultimately show ?thesis
    by simp
qed

lemma mmr_search_greedy_select:
  assumes "float_rounding fl"
    and "execute_select fl store q fetch_k filter_metadata = Inr (first # rest)"
  shows "mmr_search fl store q k lambda_mult fetch_k filter_metadata
           = Inr (map (\<lambda>doc. (hit_to_chunk doc, hit_similarity doc))
                    (py_slice_to k (greedy_select fl k lambda_mult [first] rest)))"
    and "py_slice_to k (greedy_select fl k lambda_mult [first] rest)
           = (if 1 \<le> k then greedy_select fl k lambda_mult [first] rest else [])"
    and "length (greedy_select fl k lambda_mult [first] rest)
           = 1 + min (nat k - 1) (length rest)"
proof -
  from greedy_select_loop [OF assms(1), of k lambda_mult first rest]
  obtain extra where g: "greedy_select fl k lambda_mult [first] rest = first # extra"
    and len: "length extra = min (nat k - 1) (length rest)"
    and run: "mmr_loop fl k lambda_mult [first] rest = Inr (first # extra)"
    by blast
  show "mmr_search fl store q k lambda_mult fetch_k filter_metadata
           = Inr (map (\<lambda>doc. (hit_to_chunk doc, hit_similarity doc))
                    (py_slice_to k (greedy_select fl k lambda_mult [first] rest)))"
    by (simp add: mmr_search_def assms(2) run g)
  show "py_slice_to k (greedy_select fl k lambda_mult [first] rest)
           = (if 1 \<le> k then greedy_select fl k lambda_mult [first] rest else [])"
    unfolding g by (rule py_slice_selected [OF len])
  show "length (greedy_select fl k lambda_mult [first] rest)
           = 1 + min (nat k - 1) (length rest)"
    by (simp add: g len)
qed

lemma demo_store_distinct: "distinct (map row_id (store_rows demo_store))"
  by (simp add: demo_store_def demo_table_def)

text \<open>
  Claim C4, as amended. An MMR search that returns, on a table whose row identifiers are
  distinct (\<open>id\<close> is the primary key), gives at most \<open>max(0, min(k, fetchK, storeSize))\<close>
  chunks and no chunk identifier twice; every chunk is a stored row (identifier, content
  and metadata) paired with its original similarity \<open>1 - cosine_distance\<close> to the query
  vector, computed on doubles, never with its MMR score; and the result lists the greedy
  selection in the order in which it was selected, all of it when \<open>k\<close> is at least \<open>1\<close>
  and nothing of it otherwise.
\<close>

theorem mmr_search_result:
  assumes "mmr_search fl store q k lambda_mult fetch_k filter_metadata = Inr res"
    and "distinct (map row_id (store_rows store))"
  shows "int (length res) \<le> max 0 (min k (min fetch_k (int (length (store_rows store)))))
       \<and> distinct (map (chunk_id \<circ> fst) res)
       \<and> (\<forall>(c, s)\<in>set res. \<exists>r\<in>set (store_rows store).
             s = fl (1 - store_distance store (row_embedding r) q)
             \<and> c = \<lparr>chunk_id = row_id r, chunk_content = row_content r,
                    chunk_metadata = row_metadata r, chunk_similarity = None\<rparr>)
       \<and> (float_rounding fl \<longrightarrow>
            (\<exists>candidates. execute_select fl store q fetch_k filter_metadata = Inr candidates
               \<and> res = map (\<lambda>doc. (hit_to_chunk doc, hit_similarity doc))
                         (case candidates of
                            [] \<Rightarrow> []
                          | first # rest \<Rightarrow>
                              if 1 \<le> k then greedy_select fl k lambda_mult [first] rest
                              else [])))"
proof -
  note r = mmr_search_Inr [OF assms(1)]
  have "int (length (reached_rows store q)) \<le> int (length (store_rows store))"
    using length_reached_rows [of store q] by simp
  then have len: "int (length res) \<le> max 0 (min k (min fetch_k (int (length (store_rows store)))))"
    unfolding r(4) by linarith
  from r(3) obtain sel where sub: "mset sel \<subseteq># mset (ranked_hits fl store q)"
    and res: "res = map (\<lambda>doc. (hit_to_chunk doc, hit_similarity doc)) sel"
    by blast
  have ids: "map (chunk_id \<circ> fst) res = map hit_id sel"
    by (simp add: res hit_to_chunk_def comp_def)
  from sub have "image_mset hit_id (mset sel) \<subseteq># image_mset hit_id (mset (ranked_hits fl store q))"
    by (rule image_mset_subseteq_mono)
  then have "mset (map hit_id sel) \<subseteq># mset (map hit_id (ranked_hits fl store q))"
    by simp
  then have "distinct (map hit_id sel)"
    using ranked_hits_distinct [OF assms(2)] by (rule distinct_mset_subseteq)
  then have dist: "distinct (map (chunk_id \<circ> fst) res)"
    by (simp only: ids)
  have rows: "\<exists>r\<in>set (store_rows store).
                s = fl (1 - store_distance store (row_embedding r) q)
                \<and> c = \<lparr>chunk_id = row_id r, chunk_content = row_content r,
                       chunk_metadata = row_metadata r, chunk_similarity = None\<rparr>"
    if "(c, s) \<in> set res" for c s
  proof -
    from that have "(c, s) \<in> (\<lambda>doc. (hit_to_chunk doc, hit_similarity doc)) ` set sel"
      by (simp only: res set_map)
    then obtain h where h: "h \<in> set sel" "c = hit_to_chunk h" "s = hit_similarity h"
      by blast
    from set_mset_mono [OF sub] h(1) have "h \<in> set (ranked_hits fl store q)"
      by auto
    from ranked_hits_rows [OF this] obtain row
      where "row \<in> set (store_rows store)" "h = row_to_hit fl store q row"
      by blast
    with h(2,3) show ?thesis
      by (intro bexI [of _ row]) (simp_all add: hit_to_chunk_def row_to_hit_def)
  qed
  have order: "\<exists>candidates. execute_select fl store q fetch_k filter_metadata = Inr candidates
               \<and> res = map (\<lambda>doc. (hit_to_chunk doc, hit_similarity doc))
                         (case candidates of
                            [] \<Rightarrow> []
                          | first # rest \<Rightarrow>
                              if 1 \<le> k then greedy_select fl k lambda_mult [first] rest
                              else [])"
    if fl: "float_rounding fl"
  proof -
    from assms(1) obtain cands
      where sel: "execute_select fl store q fetch_k filter_metadata = Inr cands"
      by (cases "execute_select fl store q fetch_k filter_metadata")
        (simp_all add: mmr_search_def)
    show ?thesis
    proof (cases cands)
      case Nil
      with sel assms(1) have "res = []"
        by (simp add: mmr_search_empty)
      with sel Nil show ?thesis
        by simp
    next
      case (Cons first rest)
      note g = mmr_search_greedy_select [OF fl sel [unfolded Cons], of k lambda_mult]
      from assms(1) have "res = map (\<lambda>doc. (hit_to_chunk doc, hit_similarity doc))
          (if 1 \<le> k then greedy_select fl k lambda_mult [first] rest else [])"
        unfolding g(1) g(2) by simp
      with sel Cons show ?thesis
        by simp
    qed
  qed
  from len dist rows order show ?thesis
    by blast
qed


theorem mmr_search_result_witness:
  "(case mmr_search grid_round demo_store [1, 0] 2 (1 / 2) 20 None of
      Inl e \<Rightarrow> False
    | Inr res \<Rightarrow>
        map (chunk_id \<circ> fst) res = [''1'', ''3''] \<and> map snd res = [1, 0]
        \<and> int (length res) \<le> 2 \<and> distinct (map (chunk_id \<circ> fst) res))"
proof -
  obtain res where eq: "mmr_search grid_round demo_store [1, 0] 2 (1 / 2) 20 None = Inr res"
    and ids: "map (chunk_id \<circ> fst) res = [''1'', ''3'']" "map snd res = [1, 0]"
    by (simp add: demo_eval mmr_loop.simps)
  note r = mmr_search_result [OF eq demo_store_distinct]
  have "int (length res) \<le> max 0 (min 2 (min 20 (int (length (store_rows demo_store)))))"
    by (rule r [THEN conjunct1])
  then have "int (length res) \<le> 2"
    by simp
  moreover have "distinct (map (chunk_id \<circ> fst) res)"
    by (rule r [THEN conjunct2, THEN conjunct1])
  ultimately show ?thesis
    by (simp add: eq ids)
qed

text \<open>
  The claim as stated fails for a negative \<open>k\<close>: the loop is not entered, \<open>selected[:k]\<close>
  is empty, and the length \<open>0\<close> of the result exceeds \<open>min(k, fetchK, storeSize) = k\<close>.
\<close>

theorem mmr_search_negative_k_counterexample:
  "mmr_search grid_round demo_store [1, 0] (- 1) (1 / 2) 20 None = Inr []
   \<and> \<not> int (length ([] :: (chunk \<times> real) list))
         \<le> min (- 1) (min 20 (int (length (store_rows demo_store))))"
  by (simp add: demo_eval mmr_loop.simps)

subsection \<open>Greedy selection\<close>

lemma sorted_wrt_head:
  "sorted_wrt P (x # xs) \<Longrightarrow> \<forall>y\<in>set xs. P x y"
  by simp

lemma execute_select_sorted:
  assumes "float_rounding fl"
    and "execute_select fl store q limit filter_metadata = Inr hits"
  shows "sorted_wrt (\<lambda>a b. hit_similarity b \<le> hit_similarity a) hits"
  unfolding execute_select_Inr(3) [OF assms(2)]
  by (intro sorted_wrt_take ranked_hits_sorted assms(1))

lemma demo_candidates:
  "execute_select grid_round demo_store [1, 0] 20 None = Inr [demo_hit 0, demo_hit 1, demo_hit 2]"
  by (simp add: demo_eval demo_hit_def)

lemma demo_greedy_select:
  "greedy_select grid_round 2 (1 / 2) [demo_hit 0] [demo_hit 1, demo_hit 2]
     = [demo_hit 0, demo_hit 2]"
  by (simp add: greedy_select.simps greedy_best_def greedy_mmr_score_def demo_hit_def demo_eval)

text \<open>
  Claim C1. Whenever the fetch returns a non-empty list of candidates, its first
  candidate is the most similar one, and \<open>mmr_search\<close> returns the first \<open>k\<close> items of the
  greedy selection of the specification that starts from it: until \<open>k\<close> items are
  selected or no candidate is left, the unselected candidate with the highest
  \<open>lambda * relevance - (1 - lambda) * maxSimilarityToSelected\<close> is selected, the first one
  on ties, where the last factor is the maximum over the selected items of
  \<open>1 / (1 + |len(candidateContent) - len(selectedContent)| / 100)\<close>. The selection has
  \<open>max(1, min(k, number of candidates))\<close> items, and for \<open>k\<close> at least \<open>1\<close> all of them are
  returned. Scores are computed on doubles.
\<close>

theorem mmr_search_greedy:
  assumes "float_rounding fl"
    and "execute_select fl store q fetch_k filter_metadata = Inr (first # rest)"
  shows "(\<forall>c\<in>set rest. hit_similarity c \<le> hit_similarity first)
       \<and> mmr_search fl store q k lambda_mult fetch_k filter_metadata
           = Inr (map (\<lambda>doc. (hit_to_chunk doc, hit_similarity doc))
                    (py_slice_to k (greedy_select fl k lambda_mult [first] rest)))
       \<and> int (length (greedy_select fl k lambda_mult [first] rest))
           = max 1 (min k (1 + int (length rest)))
       \<and> (1 \<le> k \<longrightarrow> py_slice_to k (greedy_select fl k lambda_mult [first] rest)
                         = greedy_select fl k lambda_mult [first] rest)"
proof -
  note g = mmr_search_greedy_select [OF assms, of k lambda_mult]
  have "sorted_wrt (\<lambda>a b. hit_similarity b \<le> hit_similarity a) (first # rest)"
    by (rule execute_select_sorted [OF assms])
  then have top: "\<forall>c\<in>set rest. hit_similarity c \<le> hit_similarity first"
    by simp
  have len: "int (length (greedy_select fl k lambda_mult [first] rest))
           = max 1 (min k (1 + int (length rest)))"
    unfolding g(3) by linarith
  have whole: "1 \<le> k \<longrightarrow> py_slice_to k (greedy_select fl k lambda_mult [first] rest)
                         = greedy_select fl k lambda_mult [first] rest"
    unfolding g(2) by simp
  from top g(1) len whole show ?thesis
    by (intro conjI)
qed

theorem mmr_search_greedy_witness:
  "execute_select grid_round demo_store [1, 0] 20 None = Inr [demo_hit 0, demo_hit 1, demo_hit 2]
   \<and> greedy_select grid_round 2 (1 / 2) [demo_hit 0] [demo_hit 1, demo_hit 2]
       = [demo_hit 0, demo_hit 2]
   \<and> mmr_search grid_round demo_store [1, 0] 2 (1 / 2) 20 None
       = Inr [(hit_to_chunk (demo_hit 0), hit_similarity (demo_hit 0)),
              (hit_to_chunk (demo_hit 2), hit_similarity (demo_hit 2))]
   \<and> hit_similarity (demo_hit 1) \<le> hit_similarity (demo_hit 0)
   \<and> hit_similarity (demo_hit 2) \<le> hit_similarity (demo_hit 0)"
proof -
  note r = mmr_search_greedy [OF grid_round_rounding demo_candidates, of 2 "1 / 2"]
  have "mmr_search grid_round demo_store [1, 0] 2 (1 / 2) 20 None
       = Inr (map (\<lambda>doc. (hit_to_chunk doc, hit_similarity doc))
                (py_slice_to 2 (greedy_select grid_round 2 (1 / 2) [demo_hit 0]
                                  [demo_hit 1, demo_hit 2])))"
    by (rule r [THEN conjunct2, THEN conjunct1])
  then have search: "mmr_search grid_round demo_store [1, 0] 2 (1 / 2) 20 None
       = Inr [(hit_to_chunk (demo_hit 0), hit_similarity (demo_hit 0)),
              (hit_to_chunk (demo_hit 2), hit_similarity (demo_hit 2))]"
    unfolding demo_greedy_select by (simp add: py_slice_to_def)
  from r [THEN conjunct1]
  have "hit_similarity (demo_hit 1) \<le> hit_similarity (demo_hit 0)"
    and "hit_similarity (demo_hit 2) \<le> hit_similarity (demo_hit 0)"
    by simp_all
  with demo_candidates demo_greedy_select search show ?thesis
    by (intro conjI)
qed

end
